theory Spec2Isabelle
  imports Main "HOL-Library.Word"
begin

section \<open>Go library functions used by the configuration client\<close>

text \<open>
  Go strings are byte sequences; \<open>string\<close> (a list of 8-bit \<open>char\<close>) is the same data.
  \<open>int64\<close> is a 64-bit word read as two's complement by \<open>sint\<close>.
\<close>

type_synonym int64 = "64 word"

subsection \<open>strings.Split\<close>

text \<open>
  \<open>strings.Split(s, sep)\<close> for a non-empty separator: the text before the leftmost
  occurrence of \<open>sep\<close>, then the split of what follows that occurrence; the last piece is
  what is left when \<open>sep\<close> does not occur any more. \<open>cur\<close> holds the bytes of the current
  piece that the scan has passed already. (For an empty separator Go explodes the string
  into UTF-8 sequences; the client never does that, and \<open>genSplit\<close> then
  returns the string as one piece.)
\<close>

function genSplit :: "string \<Rightarrow> string \<Rightarrow> string \<Rightarrow> string list" where
  "genSplit sep cur [] = [cur]"
| "genSplit sep cur (c # cs) =
     (if sep \<noteq> [] \<and> take (length sep) (c # cs) = sep
      then cur # genSplit sep [] (drop (length sep) (c # cs))
      else genSplit sep (cur @ [c]) cs)"
  by pat_completeness auto
termination
  by (relation "measure (\<lambda>(sep, cur, s). length s)") auto

definition Split :: "string \<Rightarrow> string \<Rightarrow> string list" where
  "Split s sep = genSplit sep [] s"

text \<open>\<open>strings.Join\<close>, to state that splitting loses nothing.\<close>

fun Join :: "string list \<Rightarrow> string \<Rightarrow> string" where
  "Join [] sep = []"
| "Join [x] sep = x"
| "Join (x # y # ys) sep = x @ sep @ Join (y # ys) sep"

subsection \<open>strings.TrimSpace\<close>

text \<open>
  \<open>unicode.IsSpace\<close> holds of the code points U+0009..U+000D, U+0020, U+0085, U+00A0,
  U+1680, U+2000..U+200A, U+2028, U+2029, U+202F, U+205F and U+3000. \<open>spaceRunes\<close> lists
  their UTF-8 encodings. Go decodes a rune at the front (or at the back) of the string and
  drops it while it is a space; a byte sequence that is not valid UTF-8 decodes to
  U+FFFD, which is no space. Since an encoding of the list is never a proper prefix or
  suffix of another rune's encoding, that is: drop a listed encoding from the front (the
  back) as long as there is one.
\<close>

definition spaceRunes :: "string list" where
  "spaceRunes =
     [[CHR 0x09], [CHR 0x0A], [CHR 0x0B], [CHR 0x0C], [CHR 0x0D], [CHR 0x20],
      [CHR 0xC2, CHR 0x85], [CHR 0xC2, CHR 0xA0],
      [CHR 0xE1, CHR 0x9A, CHR 0x80],
      [CHR 0xE2, CHR 0x80, CHR 0x80], [CHR 0xE2, CHR 0x80, CHR 0x81],
      [CHR 0xE2, CHR 0x80, CHR 0x82], [CHR 0xE2, CHR 0x80, CHR 0x83],
      [CHR 0xE2, CHR 0x80, CHR 0x84], [CHR 0xE2, CHR 0x80, CHR 0x85],
      [CHR 0xE2, CHR 0x80, CHR 0x86], [CHR 0xE2, CHR 0x80, CHR 0x87],
      [CHR 0xE2, CHR 0x80, CHR 0x88], [CHR 0xE2, CHR 0x80, CHR 0x89],
      [CHR 0xE2, CHR 0x80, CHR 0x8A],
      [CHR 0xE2, CHR 0x80, CHR 0xA8], [CHR 0xE2, CHR 0x80, CHR 0xA9],
      [CHR 0xE2, CHR 0x80, CHR 0xAF], [CHR 0xE2, CHR 0x81, CHR 0x9F],
      [CHR 0xE3, CHR 0x80, CHR 0x80]]"

definition leadingSpace :: "string \<Rightarrow> nat" where
  "leadingSpace s =
     (case filter (\<lambda>e. take (length e) s = e) spaceRunes of
        [] \<Rightarrow> 0
      | e # _ \<Rightarrow> length e)"

function TrimLeftSpace :: "string \<Rightarrow> string" where
  "TrimLeftSpace s =
     (if leadingSpace s = 0 then s else TrimLeftSpace (drop (leadingSpace s) s))"
  by pat_completeness auto
termination
proof (relation "measure length")
  show "wf (measure length)" by simp
next
  fix s :: string
  assume pos: "leadingSpace s \<noteq> 0"
  have "leadingSpace s \<le> length s"
  proof (cases "filter (\<lambda>e. take (length e) s = e) spaceRunes")
    case Nil
    then show ?thesis by (simp add: leadingSpace_def)
  next
    case (Cons e es)
    then have "e \<in> set (filter (\<lambda>e. take (length e) s = e) spaceRunes)" by simp
    then have "take (length e) s = e" by simp
    then have "length e \<le> length s"
      by (metis length_take min.cobounded1)
    with Cons show ?thesis by (simp add: leadingSpace_def)
  qed
  with pos show "(drop (leadingSpace s) s, s) \<in> measure length" by simp
qed

definition trailingSpace :: "string \<Rightarrow> nat" where
  "trailingSpace s =
     (case filter (\<lambda>e. length e \<le> length s \<and> drop (length s - length e) s = e) spaceRunes of
        [] \<Rightarrow> 0
      | e # _ \<Rightarrow> length e)"

function TrimRightSpace :: "string \<Rightarrow> string" where
  "TrimRightSpace s =
     (if trailingSpace s = 0 \<or> s = [] then s
      else TrimRightSpace (take (length s - trailingSpace s) s))"
  by pat_completeness auto
termination
  by (relation "measure length") auto

definition TrimSpace :: "string \<Rightarrow> string" where
  "TrimSpace s = TrimRightSpace (TrimLeftSpace s)"

subsection \<open>strconv.ParseInt and strconv.FormatInt, base 10, 64 bits\<close>

datatype NumError = ErrSyntax | ErrRange

definition isDigit :: "char \<Rightarrow> bool" where
  "isDigit c = (48 \<le> (of_char c :: nat) \<and> (of_char c :: nat) \<le> 57)"

definition digitVal :: "char \<Rightarrow> nat" where
  "digitVal c = of_char c - 48"

text \<open>
  The loop of \<open>ParseUint\<close>: a byte that is no decimal digit is a syntax error; the
  value leaving 64 bits is a range error, found by the cutoff \<open>maxUint64 / 10 + 1\<close>
  before the multiplication and by the comparison with \<open>maxUint64\<close> after the addition.
\<close>

fun ParseUint_loop :: "nat \<Rightarrow> string \<Rightarrow> NumError + nat" where
  "ParseUint_loop n [] = Inr n"
| "ParseUint_loop n (c # cs) =
     (if \<not> isDigit c then Inl ErrSyntax
      else if n \<ge> (2 ^ 64 - 1) div 10 + 1 then Inl ErrRange
      else if n * 10 + digitVal c > 2 ^ 64 - 1 then Inl ErrRange
      else ParseUint_loop (n * 10 + digitVal c) cs)"

definition ParseUint :: "string \<Rightarrow> NumError + nat" where
  "ParseUint s = (if s = [] then Inl ErrSyntax else ParseUint_loop 0 s)"

definition ParseInt :: "string \<Rightarrow> NumError + int64" where
  "ParseInt s =
     (case s of
        [] \<Rightarrow> Inl ErrSyntax
      | c # cs \<Rightarrow>
          (let neg = (c = CHR ''-'');
               digits = (if c = CHR ''+'' \<or> c = CHR ''-'' then cs else s)
           in case ParseUint digits of
                Inl e \<Rightarrow> Inl e
              | Inr un \<Rightarrow>
                  if \<not> neg \<and> un \<ge> 2 ^ 63 then Inl ErrRange
                  else if neg \<and> un > 2 ^ 63 then Inl ErrRange
                  else Inr (if neg then - word_of_nat un else word_of_nat un)))"

definition digitChar :: "nat \<Rightarrow> char" where
  "digitChar d = ''0123456789'' ! (d mod 10)"

function natDigits :: "nat \<Rightarrow> string" where
  "natDigits n =
     (if n < 10 then [digitChar n]
      else natDigits (n div 10) @ [digitChar (n mod 10)])"
  by pat_completeness auto
termination
  by (relation "measure id") auto

definition FormatInt :: "int64 \<Rightarrow> string" where
  "FormatInt i =
     (if sint i < 0 then CHR ''-'' # natDigits (nat (- sint i)) else natDigits (nat (sint i)))"

text \<open>The number a string of decimal digits stands for, to read \<open>natDigits\<close> back.\<close>

definition digitsValue :: "string \<Rightarrow> nat" where
  "digitsValue s = foldl (\<lambda>a c. a * 10 + digitVal c) 0 s"

section \<open>Entities and errors\<close>

text \<open>
  \<open>models.TCPRule\<close> and \<open>models.BackendSwitchingRule\<close> come from the generated models
  package; the client reads and writes their \<open>ID\<close> and hands the rest to
  \<open>parseObject\<close> and to the engine. Both are a record of the identifier and the field
  assignments, \<open>Fields\<close> empty in a freshly built value. The bodies returned by the Get
  operations pair the data with the configuration version.
\<close>

record Entity =
  ID :: int64
  Fields :: "(string \<times> string) list"

type_synonym TCPRule = Entity
type_synonym BackendSwitchingRule = Entity

record 'd OKBody =
  Version :: int64
  Data :: 'd

text \<open>
  Modelled from the spec: \<open>NewConfError\<close> and its error codes are not among the source
  files. The codes are the taxonomy of the spec's section 7; the source names
  \<open>ErrValidationError\<close> only.
\<close>

datatype ErrCode = ErrValidationError | ErrNotFound | ErrConflict | ErrEngine

datatype Error = NewConfError ErrCode string

fun isValidationError :: "Error \<Rightarrow> bool" where
  "isValidationError (NewConfError code msg) = (code = ErrValidationError)"

section \<open>Collaborators\<close>

text \<open>
  The client calls functions that are not among the source files. They are parameters
  of the model, collected in a record: the helpers \<open>typeToLbctlType\<close>, \<open>splitHeaderLine\<close>
  and \<open>parseObject\<close>; the payload validation \<open>data.Validate\<close> of the models package
  (\<open>None\<close> for a valid payload, the message otherwise); and the external interfaces of
  the spec's section 6: the engine invocation behind \<open>executeLBCTL\<close> (command name,
  transaction, arguments), the version service behind \<open>GetVersion\<close>, and the engine's
  create, edit and delete behind \<open>createObject\<close>, \<open>editObject\<close> and \<open>deleteObject\<close>,
  whose command line the source files do not show and which \<open>EngineOp\<close> keeps as the
  arguments handed over. The engine has a state of its own, of type \<open>'e\<close>, which each
  invocation may change, so two invocations with the same arguments may answer
  differently.
\<close>

datatype EngineOp =
    EngineCreate string string string string Entity string int64
  | EngineEdit string string string string Entity "Entity OKBody" string int64
  | EngineDelete string string string string string int64

record 'e Collab =
  typeToLbctlType :: "string \<Rightarrow> string"
  splitHeaderLine :: "string \<Rightarrow> string \<times> string"
  parseObject :: "string \<Rightarrow> Entity \<Rightarrow> Entity"
  Validate :: "Entity \<Rightarrow> string option"
  engineRun :: "'e \<Rightarrow> string \<Rightarrow> string \<Rightarrow> string list \<Rightarrow> (Error + string) \<times> 'e"
  currentVersion :: "'e \<Rightarrow> string \<Rightarrow> (Error + int64) \<times> 'e"
  engineMutate :: "'e \<Rightarrow> EngineOp \<Rightarrow> Error option \<times> 'e"

section \<open>The record parser\<close>

text \<open>
  \<open>parseTCPContentRules\<close> and \<open>parseBackendSwitchingRules\<close>: the loop over the blocks
  of \<open>strings.Split(response, "\n\n")\<close>, with the slice built so far as accumulator. A
  block that \<open>strings.TrimSpace\<close> empties is skipped; the identifier is the parsed header
  token, or 0 when \<open>strconv.ParseInt\<close> reports an error.
\<close>

fun parseTCPContentRules_loop :: "'e Collab \<Rightarrow> TCPRule list \<Rightarrow> string list \<Rightarrow> TCPRule list" where
  "parseTCPContentRules_loop K tcpRules [] = tcpRules"
| "parseTCPContentRules_loop K tcpRules (tcpRulesStr # rest) =
     (if TrimSpace tcpRulesStr = [] then parseTCPContentRules_loop K tcpRules rest
      else
        (let idStr = fst (splitHeaderLine K tcpRulesStr);
             id = (case ParseInt idStr of Inl err \<Rightarrow> 0 | Inr v \<Rightarrow> v);
             tcpRulesObj = parseObject K tcpRulesStr \<lparr>ID = id, Fields = []\<rparr>
         in parseTCPContentRules_loop K (tcpRules @ [tcpRulesObj]) rest))"

definition parseTCPContentRules :: "'e Collab \<Rightarrow> string \<Rightarrow> TCPRule list" where
  "parseTCPContentRules K response =
     parseTCPContentRules_loop K [] (Split response ''\<newline>\<newline>'')"

fun parseBackendSwitchingRules_loop ::
  "'e Collab \<Rightarrow> BackendSwitchingRule list \<Rightarrow> string list \<Rightarrow> BackendSwitchingRule list" where
  "parseBackendSwitchingRules_loop K bckRules [] = bckRules"
| "parseBackendSwitchingRules_loop K bckRules (bckRulesStr # rest) =
     (if TrimSpace bckRulesStr = [] then parseBackendSwitchingRules_loop K bckRules rest
      else
        (let idStr = fst (splitHeaderLine K bckRulesStr);
             id = (case ParseInt idStr of Inl err \<Rightarrow> 0 | Inr v \<Rightarrow> v);
             bckRulesObj = parseObject K bckRulesStr \<lparr>ID = id, Fields = []\<rparr>
         in parseBackendSwitchingRules_loop K (bckRules @ [bckRulesObj]) rest))"

definition parseBackendSwitchingRules :: "'e Collab \<Rightarrow> string \<Rightarrow> BackendSwitchingRule list" where
  "parseBackendSwitchingRules K response =
     parseBackendSwitchingRules_loop K [] (Split response ''\<newline>\<newline>'')"

text \<open>
  The parser as the specification words it: split the blob on blank-line boundaries,
  skip the blocks that are empty after trimming whitespace, inflate each remaining block,
  in the order of the blob.
\<close>

definition inflate :: "'e Collab \<Rightarrow> string \<Rightarrow> Entity" where
  "inflate K block =
     parseObject K block
       \<lparr>ID = (case ParseInt (fst (splitHeaderLine K block)) of Inl err \<Rightarrow> 0 | Inr v \<Rightarrow> v),
        Fields = []\<rparr>"

definition spec_parse :: "'e Collab \<Rightarrow> string \<Rightarrow> Entity list" where
  "spec_parse K blob =
     map (inflate K) (filter (\<lambda>block. TrimSpace block \<noteq> []) (Split blob ''\<newline>\<newline>''))"

text \<open>The identifier the loop gives a block: the parsed header token, or 0.\<close>

definition headerID :: "'e Collab \<Rightarrow> string \<Rightarrow> int64" where
  "headerID K block =
     (case ParseInt (fst (splitHeaderLine K block)) of Inl err \<Rightarrow> 0 | Inr v \<Rightarrow> v)"

text \<open>
  Modelled from the spec: \<open>splitHeaderLine\<close> and \<open>parseObject\<close> are not among the source
  files. The spec's data model says of a raw record that its first line's leading token
  is the record's identifier and that the remaining lines are field assignments.
  \<open>splitHeaderLine_spec\<close> returns the leading token of the first line and what follows it
  on that line; \<open>parseObject_spec\<close> leaves the identifier as it is and assigns one field
  for each remaining non-empty line, the name up to the first blank and the value after it.
\<close>

definition splitHeaderLine_spec :: "string \<Rightarrow> string \<times> string" where
  "splitHeaderLine_spec s =
     (let line = takeWhile (\<lambda>c. c \<noteq> CHR 0x0A) s
      in (takeWhile (\<lambda>c. c \<noteq> CHR '' '') line,
          drop 1 (dropWhile (\<lambda>c. c \<noteq> CHR '' '') line)))"

definition parseObject_spec :: "string \<Rightarrow> Entity \<Rightarrow> Entity" where
  "parseObject_spec s obj =
     obj\<lparr>Fields := Fields obj @
        map (\<lambda>line. (takeWhile (\<lambda>c. c \<noteq> CHR '' '') line,
                      drop 1 (dropWhile (\<lambda>c. c \<noteq> CHR '' '') line)))
          (filter (\<lambda>line. line \<noteq> []) (drop 1 (Split s ''\<newline>'')))\<rparr>"

section \<open>The cache\<close>

text \<open>
  Modelled from the spec: the cache type is not among the source files. Section 4.3 of
  the spec gives its operations: \<open>Get\<close> and \<open>GetOne\<close> return the value and whether it
  was found (here \<open>Some\<close> of the value, or \<open>None\<close>); \<open>SetAll\<close> and \<open>Set\<close> store a
  collection and a single item; an invalidation drops every single-item and collection
  entry cached for the scope within the transaction and leaves sibling scopes untouched;
  with the cache disabled every \<open>Get\<close> reports not-found and every \<open>Set\<close> and
  invalidation is a no-op; and the cache tracks, per transaction, the last known
  configuration version. A key is the scope and the transaction as the source passes
  them: (frontend, transaction) for backend switching rules, (parent name, parent type,
  transaction) for TCP request rules, (parent name, transaction) for TCP response rules.
\<close>

record 'k RuleCache =
  collections :: "'k \<rightharpoonup> Entity list"
  singles :: "int64 \<times> 'k \<rightharpoonup> Entity"

record Cache =
  enabled :: bool
  BackendSwitchingRules :: "(string \<times> string) RuleCache"
  TcpContentRequestRules :: "(string \<times> string \<times> string) RuleCache"
  TcpContentResponseRules :: "(string \<times> string) RuleCache"
  Versions :: "string \<Rightarrow> int64"

definition Enabled :: "Cache \<Rightarrow> bool" where
  "Enabled ch = enabled ch"

definition rcGet :: "bool \<Rightarrow> 'k RuleCache \<Rightarrow> 'k \<Rightarrow> Entity list option" where
  "rcGet en rc k = (if en then collections rc k else None)"

definition rcGetOne :: "bool \<Rightarrow> 'k RuleCache \<Rightarrow> int64 \<Rightarrow> 'k \<Rightarrow> Entity option" where
  "rcGetOne en rc i k = (if en then singles rc (i, k) else None)"

definition rcSetAll :: "bool \<Rightarrow> 'k RuleCache \<Rightarrow> 'k \<Rightarrow> Entity list \<Rightarrow> 'k RuleCache" where
  "rcSetAll en rc k v = (if en then rc\<lparr>collections := (collections rc)(k \<mapsto> v)\<rparr> else rc)"

definition rcSet :: "bool \<Rightarrow> 'k RuleCache \<Rightarrow> int64 \<Rightarrow> 'k \<Rightarrow> Entity \<Rightarrow> 'k RuleCache" where
  "rcSet en rc i k v = (if en then rc\<lparr>singles := (singles rc)((i, k) \<mapsto> v)\<rparr> else rc)"

definition rcInvalidate :: "bool \<Rightarrow> 'k RuleCache \<Rightarrow> 'k \<Rightarrow> 'k RuleCache" where
  "rcInvalidate en rc k =
     (if en
      then rc\<lparr>collections := (collections rc)(k := None),
              singles := (\<lambda>(i, k'). if k' = k then None else singles rc (i, k'))\<rparr>
      else rc)"

section \<open>The client\<close>

text \<open>
  The client holds the validation switch, the cache and the engine's state. \<open>Trace\<close>
  records, in order, every call the client makes to the cache, to the engine and to the
  version service, so that a statement can say which of them an operation performs.
\<close>

datatype Event =
    CacheGet string "string list"
  | CacheGetOne string int64 "string list"
  | CacheSetAll string "string list" "Entity list"
  | CacheSet string int64 "string list" Entity
  | CacheInvalidate string "string list"
  | CacheVersionGet string
  | EngineRun string string "string list"
  | EngineVersion string
  | EngineMutate EngineOp

record 'e Client =
  UseValidation :: bool
  Cache :: Cache
  Engine :: 'e
  Trace :: "Event list"

definition record_event :: "Event \<Rightarrow> 'e Client \<Rightarrow> 'e Client" where
  "record_event ev c = c\<lparr>Trace := Trace c @ [ev]\<rparr>"

subsection \<open>Calls to the cache\<close>

definition BackendSwitchingRules_Get ::
  "string \<Rightarrow> string \<Rightarrow> 'e Client \<Rightarrow> Entity list option \<times> 'e Client" where
  "BackendSwitchingRules_Get frontend transactionID c =
     (rcGet (enabled (Cache c)) (BackendSwitchingRules (Cache c)) (frontend, transactionID),
      record_event (CacheGet ''BackendSwitchingRules'' [frontend, transactionID]) c)"

definition BackendSwitchingRules_GetOne ::
  "int64 \<Rightarrow> string \<Rightarrow> string \<Rightarrow> 'e Client \<Rightarrow> Entity option \<times> 'e Client" where
  "BackendSwitchingRules_GetOne i frontend transactionID c =
     (rcGetOne (enabled (Cache c)) (BackendSwitchingRules (Cache c)) i (frontend, transactionID),
      record_event (CacheGetOne ''BackendSwitchingRules'' i [frontend, transactionID]) c)"

definition BackendSwitchingRules_SetAll ::
  "string \<Rightarrow> string \<Rightarrow> Entity list \<Rightarrow> 'e Client \<Rightarrow> 'e Client" where
  "BackendSwitchingRules_SetAll frontend transactionID v c =
     record_event (CacheSetAll ''BackendSwitchingRules'' [frontend, transactionID] v)
       (c\<lparr>Cache := (Cache c)\<lparr>BackendSwitchingRules :=
            rcSetAll (enabled (Cache c)) (BackendSwitchingRules (Cache c))
              (frontend, transactionID) v\<rparr>\<rparr>)"

definition BackendSwitchingRules_Set ::
  "int64 \<Rightarrow> string \<Rightarrow> string \<Rightarrow> Entity \<Rightarrow> 'e Client \<Rightarrow> 'e Client" where
  "BackendSwitchingRules_Set i frontend transactionID v c =
     record_event (CacheSet ''BackendSwitchingRules'' i [frontend, transactionID] v)
       (c\<lparr>Cache := (Cache c)\<lparr>BackendSwitchingRules :=
            rcSet (enabled (Cache c)) (BackendSwitchingRules (Cache c)) i
              (frontend, transactionID) v\<rparr>\<rparr>)"

definition BackendSwitchingRules_InvalidateFrontend ::
  "string \<Rightarrow> string \<Rightarrow> 'e Client \<Rightarrow> 'e Client" where
  "BackendSwitchingRules_InvalidateFrontend transactionID frontend c =
     record_event (CacheInvalidate ''BackendSwitchingRules'' [frontend, transactionID])
       (c\<lparr>Cache := (Cache c)\<lparr>BackendSwitchingRules :=
            rcInvalidate (enabled (Cache c)) (BackendSwitchingRules (Cache c))
              (frontend, transactionID)\<rparr>\<rparr>)"

definition TcpContentRequestRules_Get ::
  "string \<Rightarrow> string \<Rightarrow> string \<Rightarrow> 'e Client \<Rightarrow> Entity list option \<times> 'e Client" where
  "TcpContentRequestRules_Get parentName parentType transactionID c =
     (rcGet (enabled (Cache c)) (TcpContentRequestRules (Cache c))
        (parentName, parentType, transactionID),
      record_event (CacheGet ''TcpContentRequestRules'' [parentName, parentType, transactionID]) c)"

definition TcpContentRequestRules_GetOne ::
  "int64 \<Rightarrow> string \<Rightarrow> string \<Rightarrow> string \<Rightarrow> 'e Client \<Rightarrow> Entity option \<times> 'e Client" where
  "TcpContentRequestRules_GetOne i parentName parentType transactionID c =
     (rcGetOne (enabled (Cache c)) (TcpContentRequestRules (Cache c)) i
        (parentName, parentType, transactionID),
      record_event
        (CacheGetOne ''TcpContentRequestRules'' i [parentName, parentType, transactionID]) c)"

definition TcpContentRequestRules_SetAll ::
  "string \<Rightarrow> string \<Rightarrow> string \<Rightarrow> Entity list \<Rightarrow> 'e Client \<Rightarrow> 'e Client" where
  "TcpContentRequestRules_SetAll parentName parentType transactionID v c =
     record_event
       (CacheSetAll ''TcpContentRequestRules'' [parentName, parentType, transactionID] v)
       (c\<lparr>Cache := (Cache c)\<lparr>TcpContentRequestRules :=
            rcSetAll (enabled (Cache c)) (TcpContentRequestRules (Cache c))
              (parentName, parentType, transactionID) v\<rparr>\<rparr>)"

definition TcpContentRequestRules_Set ::
  "int64 \<Rightarrow> string \<Rightarrow> string \<Rightarrow> string \<Rightarrow> Entity \<Rightarrow> 'e Client \<Rightarrow> 'e Client" where
  "TcpContentRequestRules_Set i parentName parentType transactionID v c =
     record_event
       (CacheSet ''TcpContentRequestRules'' i [parentName, parentType, transactionID] v)
       (c\<lparr>Cache := (Cache c)\<lparr>TcpContentRequestRules :=
            rcSet (enabled (Cache c)) (TcpContentRequestRules (Cache c)) i
              (parentName, parentType, transactionID) v\<rparr>\<rparr>)"

definition TcpContentRequestRules_InvalidateParent ::
  "string \<Rightarrow> string \<Rightarrow> string \<Rightarrow> 'e Client \<Rightarrow> 'e Client" where
  "TcpContentRequestRules_InvalidateParent transactionID parentName parentType c =
     record_event
       (CacheInvalidate ''TcpContentRequestRules'' [parentName, parentType, transactionID])
       (c\<lparr>Cache := (Cache c)\<lparr>TcpContentRequestRules :=
            rcInvalidate (enabled (Cache c)) (TcpContentRequestRules (Cache c))
              (parentName, parentType, transactionID)\<rparr>\<rparr>)"

definition TcpContentResponseRules_Get ::
  "string \<Rightarrow> string \<Rightarrow> 'e Client \<Rightarrow> Entity list option \<times> 'e Client" where
  "TcpContentResponseRules_Get parentName transactionID c =
     (rcGet (enabled (Cache c)) (TcpContentResponseRules (Cache c)) (parentName, transactionID),
      record_event (CacheGet ''TcpContentResponseRules'' [parentName, transactionID]) c)"

definition TcpContentResponseRules_GetOne ::
  "int64 \<Rightarrow> string \<Rightarrow> string \<Rightarrow> 'e Client \<Rightarrow> Entity option \<times> 'e Client" where
  "TcpContentResponseRules_GetOne i parentName transactionID c =
     (rcGetOne (enabled (Cache c)) (TcpContentResponseRules (Cache c)) i
        (parentName, transactionID),
      record_event (CacheGetOne ''TcpContentResponseRules'' i [parentName, transactionID]) c)"

definition TcpContentResponseRules_SetAll ::
  "string \<Rightarrow> string \<Rightarrow> Entity list \<Rightarrow> 'e Client \<Rightarrow> 'e Client" where
  "TcpContentResponseRules_SetAll parentName transactionID v c =
     record_event (CacheSetAll ''TcpContentResponseRules'' [parentName, transactionID] v)
       (c\<lparr>Cache := (Cache c)\<lparr>TcpContentResponseRules :=
            rcSetAll (enabled (Cache c)) (TcpContentResponseRules (Cache c))
              (parentName, transactionID) v\<rparr>\<rparr>)"

definition TcpContentResponseRules_Set ::
  "int64 \<Rightarrow> string \<Rightarrow> string \<Rightarrow> Entity \<Rightarrow> 'e Client \<Rightarrow> 'e Client" where
  "TcpContentResponseRules_Set i parentName transactionID v c =
     record_event (CacheSet ''TcpContentResponseRules'' i [parentName, transactionID] v)
       (c\<lparr>Cache := (Cache c)\<lparr>TcpContentResponseRules :=
            rcSet (enabled (Cache c)) (TcpContentResponseRules (Cache c)) i
              (parentName, transactionID) v\<rparr>\<rparr>)"

definition TcpContentResponseRules_InvalidateBackend ::
  "string \<Rightarrow> string \<Rightarrow> 'e Client \<Rightarrow> 'e Client" where
  "TcpContentResponseRules_InvalidateBackend transactionID parentName c =
     record_event (CacheInvalidate ''TcpContentResponseRules'' [parentName, transactionID])
       (c\<lparr>Cache := (Cache c)\<lparr>TcpContentResponseRules :=
            rcInvalidate (enabled (Cache c)) (TcpContentResponseRules (Cache c))
              (parentName, transactionID)\<rparr>\<rparr>)"

definition Version_Get :: "string \<Rightarrow> 'e Client \<Rightarrow> int64 \<times> 'e Client" where
  "Version_Get transactionID c =
     (Versions (Cache c) transactionID, record_event (CacheVersionGet transactionID) c)"

subsection \<open>Calls to the engine and to the version service\<close>

text \<open>
  Modelled from the spec: \<open>executeLBCTL\<close>, \<open>GetVersion\<close>, \<open>createObject\<close>,
  \<open>editObject\<close> and \<open>deleteObject\<close> are not among the source files. The first two are
  the engine invocation and the version service of the spec's section 6. The other three
  are the engine's create, edit and delete with the optimistic-concurrency token of
  section 4.4: exactly one of the transaction and the explicit version must be supplied,
  and supplying neither or both is a validation error; a transaction is supplied when the
  string is not empty, a version when it is not 0, the values a Go caller passes for
  an absent one. \<open>skipFields\<close> is the argument the source always passes as \<open>nil\<close>.
\<close>

definition executeLBCTL ::
  "'e Collab \<Rightarrow> string \<Rightarrow> string \<Rightarrow> string list \<Rightarrow> 'e Client \<Rightarrow> (Error + string) \<times> 'e Client" where
  "executeLBCTL K command transactionID args c =
     (case engineRun K (Engine c) command transactionID args of
        (r, e) \<Rightarrow> (r, record_event (EngineRun command transactionID args) (c\<lparr>Engine := e\<rparr>)))"

definition GetVersion :: "'e Collab \<Rightarrow> string \<Rightarrow> 'e Client \<Rightarrow> (Error + int64) \<times> 'e Client" where
  "GetVersion K transactionID c =
     (case currentVersion K (Engine c) transactionID of
        (r, e) \<Rightarrow> (r, record_event (EngineVersion transactionID) (c\<lparr>Engine := e\<rparr>)))"

definition tokenError :: "string \<Rightarrow> int64 \<Rightarrow> Error option" where
  "tokenError transactionID version =
     (if transactionID = [] \<and> version = 0
      then Some (NewConfError ErrValidationError ''Neither version nor transaction specified'')
      else if transactionID \<noteq> [] \<and> version \<noteq> 0
      then Some (NewConfError ErrValidationError ''Both version and transaction specified'')
      else None)"

definition invokeMutate :: "'e Collab \<Rightarrow> EngineOp \<Rightarrow> 'e Client \<Rightarrow> Error option \<times> 'e Client" where
  "invokeMutate K op c =
     (case engineMutate K (Engine c) op of
        (r, e) \<Rightarrow> (r, record_event (EngineMutate op) (c\<lparr>Engine := e\<rparr>)))"

definition createObject ::
  "'e Collab \<Rightarrow> string \<Rightarrow> string \<Rightarrow> string \<Rightarrow> string \<Rightarrow> Entity \<Rightarrow> string list \<Rightarrow> string \<Rightarrow> int64
     \<Rightarrow> 'e Client \<Rightarrow> Error option \<times> 'e Client" where
  "createObject K name objType parent parentType data skipFields transactionID version c =
     (case tokenError transactionID version of
        Some err \<Rightarrow> (Some err, c)
      | None \<Rightarrow>
          invokeMutate K (EngineCreate name objType parent parentType data transactionID version) c)"

definition editObject ::
  "'e Collab \<Rightarrow> string \<Rightarrow> string \<Rightarrow> string \<Rightarrow> string \<Rightarrow> Entity \<Rightarrow> Entity OKBody \<Rightarrow> string list
     \<Rightarrow> string \<Rightarrow> int64 \<Rightarrow> 'e Client \<Rightarrow> Error option \<times> 'e Client" where
  "editObject K name objType parent parentType data ondisk skipFields transactionID version c =
     (case tokenError transactionID version of
        Some err \<Rightarrow> (Some err, c)
      | None \<Rightarrow>
          invokeMutate K
            (EngineEdit name objType parent parentType data ondisk transactionID version) c)"

definition deleteObject ::
  "'e Collab \<Rightarrow> string \<Rightarrow> string \<Rightarrow> string \<Rightarrow> string \<Rightarrow> string \<Rightarrow> int64
     \<Rightarrow> 'e Client \<Rightarrow> Error option \<times> 'e Client" where
  "deleteObject K name objType parent parentType transactionID version c =
     (case tokenError transactionID version of
        Some err \<Rightarrow> (Some err, c)
      | None \<Rightarrow>
          invokeMutate K (EngineDelete name objType parent parentType transactionID version) c)"

section \<open>TCP content rules\<close>

text \<open>
  Every operation on TCP content rules holds the same \<open>switch\<close> on the rule type,
  followed by the test of \<open>lbctlRType\<close> against the empty string: \<open>request\<close> gives
  \<open>tcpreqcont\<close>; \<open>response\<close> gives \<open>tcprspcont\<close>, unless the parent type is
  \<open>frontend\<close>, which returns a validation error at once; any other rule type leaves
  \<open>lbctlRType\<close> empty, which is a validation error.
\<close>

definition lbctlRTypeOf :: "string \<Rightarrow> string \<Rightarrow> Error + string" where
  "lbctlRTypeOf ruleType parentType =
     (if ruleType = ''request'' then Inr ''tcpreqcont''
      else if ruleType = ''response''
      then (if parentType = ''frontend''
            then Inl (NewConfError ErrValidationError
                        ''Rule type cannot be response for frontend parent'')
            else Inr ''tcprspcont'')
      else Inl (NewConfError ErrValidationError
                  (''Rule type '' @ ruleType @ '' not recognized'')))"

definition parentTypeError :: "string \<Rightarrow> Error" where
  "parentTypeError parentType =
     NewConfError ErrValidationError (''Parent type '' @ parentType @ '' not recognized'')"

definition GetTCPContentRules ::
  "'e Collab \<Rightarrow> string \<Rightarrow> string \<Rightarrow> string \<Rightarrow> string \<Rightarrow> 'e Client
     \<Rightarrow> (Error + TCPRule list OKBody) \<times> 'e Client" where
  "GetTCPContentRules K parentType parentName ruleType transactionID c =
     (case (if Enabled (Cache c)
            then (if ruleType = ''request''
                  then TcpContentRequestRules_Get parentName parentType transactionID c
                  else if ruleType = ''response''
                  then TcpContentResponseRules_Get parentName transactionID c
                  else (None, c))
            else (None, c)) of
        (Some tcpRules, c1) \<Rightarrow>
          (case Version_Get transactionID c1 of
             (v, c2) \<Rightarrow> (Inr \<lparr>Version = v, Data = tcpRules\<rparr>, c2))
      | (None, c1) \<Rightarrow>
          (let lbctlType = typeToLbctlType K parentType in
           if lbctlType = [] then (Inl (parentTypeError parentType), c1)
           else
             (case lbctlRTypeOf ruleType parentType of
                Inl err \<Rightarrow> (Inl err, c1)
              | Inr lbctlRType \<Rightarrow>
                  (case executeLBCTL K (''l7-'' @ lbctlType @ ''-'' @ lbctlRType @ ''-dump'')
                          [] [parentName] c1 of
                     (Inl err, c2) \<Rightarrow> (Inl err, c2)
                   | (Inr tcpRulesStr, c2) \<Rightarrow>
                       (let tcpRules = parseTCPContentRules K tcpRulesStr in
                        case GetVersion K transactionID c2 of
                          (Inl err, c3) \<Rightarrow> (Inl err, c3)
                        | (Inr v, c3) \<Rightarrow>
                            (Inr \<lparr>Version = v, Data = tcpRules\<rparr>,
                             if Enabled (Cache c3)
                             then (if ruleType = ''request''
                                   then TcpContentRequestRules_SetAll parentName parentType
                                          transactionID tcpRules c3
                                   else if ruleType = ''response''
                                   then TcpContentResponseRules_SetAll parentName
                                          transactionID tcpRules c3
                                   else c3)
                             else c3))))))"

definition GetTCPContentRule ::
  "'e Collab \<Rightarrow> int64 \<Rightarrow> string \<Rightarrow> string \<Rightarrow> string \<Rightarrow> string \<Rightarrow> 'e Client
     \<Rightarrow> (Error + TCPRule OKBody) \<times> 'e Client" where
  "GetTCPContentRule K id' parentType parentName ruleType transactionID c =
     (case (if Enabled (Cache c)
            then (if ruleType = ''request''
                  then TcpContentRequestRules_GetOne id' parentName parentType transactionID c
                  else if ruleType = ''response''
                  then TcpContentResponseRules_GetOne id' parentName transactionID c
                  else (None, c))
            else (None, c)) of
        (Some tcpRule, c1) \<Rightarrow>
          (case Version_Get transactionID c1 of
             (v, c2) \<Rightarrow> (Inr \<lparr>Version = v, Data = tcpRule\<rparr>, c2))
      | (None, c1) \<Rightarrow>
          (let lbctlType = typeToLbctlType K parentType in
           if lbctlType = [] then (Inl (parentTypeError parentType), c1)
           else
             (case lbctlRTypeOf ruleType parentType of
                Inl err \<Rightarrow> (Inl err, c1)
              | Inr lbctlRType \<Rightarrow>
                  (case executeLBCTL K (''l7-'' @ lbctlType @ ''-'' @ lbctlRType @ ''-show'')
                          [] [parentName, FormatInt id'] c1 of
                     (Inl err, c2) \<Rightarrow> (Inl err, c2)
                   | (Inr tcpRuleStr, c2) \<Rightarrow>
                       (let tcpRule = parseObject K tcpRuleStr \<lparr>ID = id', Fields = []\<rparr> in
                        case GetVersion K transactionID c2 of
                          (Inl err, c3) \<Rightarrow> (Inl err, c3)
                        | (Inr v, c3) \<Rightarrow>
                            (Inr \<lparr>Version = v, Data = tcpRule\<rparr>,
                             if Enabled (Cache c3)
                             then (if ruleType = ''request''
                                   then TcpContentRequestRules_Set id' parentName parentType
                                          transactionID tcpRule c3
                                   else if ruleType = ''response''
                                   then TcpContentResponseRules_Set id' parentName
                                          transactionID tcpRule c3
                                   else c3)
                             else c3))))))"

text \<open>
  The invalidation that ends every successful mutation of a TCP content rule.
\<close>

definition invalidateTCPContentRules ::
  "string \<Rightarrow> string \<Rightarrow> string \<Rightarrow> string \<Rightarrow> 'e Client \<Rightarrow> 'e Client" where
  "invalidateTCPContentRules parentType parentName ruleType transactionID c =
     (if Enabled (Cache c)
      then (if ruleType = ''request''
            then TcpContentRequestRules_InvalidateParent transactionID parentName parentType c
            else if ruleType = ''response''
            then TcpContentResponseRules_InvalidateBackend transactionID parentName c
            else c)
      else c)"

definition DeleteTCPContentRule ::
  "'e Collab \<Rightarrow> int64 \<Rightarrow> string \<Rightarrow> string \<Rightarrow> string \<Rightarrow> string \<Rightarrow> int64 \<Rightarrow> 'e Client
     \<Rightarrow> Error option \<times> 'e Client" where
  "DeleteTCPContentRule K id' parentType parentName ruleType transactionID version c =
     (let lbctlType = typeToLbctlType K parentType in
      if lbctlType = [] then (Some (parentTypeError parentType), c)
      else
        (case lbctlRTypeOf ruleType parentType of
           Inl err \<Rightarrow> (Some err, c)
         | Inr lbctlRType \<Rightarrow>
             (case deleteObject K (FormatInt id') lbctlRType parentName lbctlType
                     transactionID version c of
                (Some err, c1) \<Rightarrow> (Some err, c1)
              | (None, c1) \<Rightarrow>
                  (None, invalidateTCPContentRules parentType parentName ruleType
                           transactionID c1))))"

definition CreateTCPContentRule ::
  "'e Collab \<Rightarrow> string \<Rightarrow> string \<Rightarrow> string \<Rightarrow> TCPRule \<Rightarrow> string \<Rightarrow> int64 \<Rightarrow> 'e Client
     \<Rightarrow> Error option \<times> 'e Client" where
  "CreateTCPContentRule K parentType parentName ruleType data transactionID version c =
     (case (if UseValidation c then Validate K data else None) of
        Some validationErr \<Rightarrow> (Some (NewConfError ErrValidationError validationErr), c)
      | None \<Rightarrow>
          (case lbctlRTypeOf ruleType parentType of
             Inl err \<Rightarrow> (Some err, c)
           | Inr lbctlRType \<Rightarrow>
               (let lbctlType = typeToLbctlType K parentType in
                if lbctlType = [] then (Some (parentTypeError parentType), c)
                else
                  (case createObject K (FormatInt (ID data)) lbctlRType parentName lbctlType
                          data [] transactionID version c of
                     (Some err, c1) \<Rightarrow> (Some err, c1)
                   | (None, c1) \<Rightarrow>
                       (None, invalidateTCPContentRules parentType parentName ruleType
                                transactionID c1)))))"

definition EditTCPContentRule ::
  "'e Collab \<Rightarrow> int64 \<Rightarrow> string \<Rightarrow> string \<Rightarrow> string \<Rightarrow> TCPRule \<Rightarrow> string \<Rightarrow> int64 \<Rightarrow> 'e Client
     \<Rightarrow> Error option \<times> 'e Client" where
  "EditTCPContentRule K id' parentType parentName ruleType data transactionID version c =
     (case (if UseValidation c then Validate K data else None) of
        Some validationErr \<Rightarrow> (Some (NewConfError ErrValidationError validationErr), c)
      | None \<Rightarrow>
          (let lbctlType = typeToLbctlType K parentType in
           if lbctlType = [] then (Some (parentTypeError parentType), c)
           else
             (case lbctlRTypeOf ruleType parentType of
                Inl err \<Rightarrow> (Some err, c)
              | Inr lbctlRType \<Rightarrow>
                  (case GetTCPContentRule K id' parentType parentName ruleType transactionID c of
                     (Inl err, c1) \<Rightarrow> (Some err, c1)
                   | (Inr ondiskBr, c1) \<Rightarrow>
                       (case editObject K (FormatInt (ID data)) lbctlRType parentName lbctlType
                               data ondiskBr [] transactionID version c1 of
                          (Some err, c2) \<Rightarrow> (Some err, c2)
                        | (None, c2) \<Rightarrow>
                            (None, invalidateTCPContentRules parentType parentName ruleType
                                     transactionID c2))))))"

section \<open>Backend switching rules\<close>

definition GetBackendSwitchingRules ::
  "'e Collab \<Rightarrow> string \<Rightarrow> string \<Rightarrow> 'e Client
     \<Rightarrow> (Error + BackendSwitchingRule list OKBody) \<times> 'e Client" where
  "GetBackendSwitchingRules K frontend transactionID c =
     (case (if Enabled (Cache c) then BackendSwitchingRules_Get frontend transactionID c
            else (None, c)) of
        (Some bckRules, c1) \<Rightarrow>
          (case Version_Get transactionID c1 of
             (v, c2) \<Rightarrow> (Inr \<lparr>Version = v, Data = bckRules\<rparr>, c2))
      | (None, c1) \<Rightarrow>
          (case executeLBCTL K ''l7-service-usefarm-dump'' transactionID [frontend] c1 of
             (Inl err, c2) \<Rightarrow> (Inl err, c2)
           | (Inr bckRulesString, c2) \<Rightarrow>
               (let bckRules = parseBackendSwitchingRules K bckRulesString in
                case GetVersion K transactionID c2 of
                  (Inl err, c3) \<Rightarrow> (Inl err, c3)
                | (Inr v, c3) \<Rightarrow>
                    (Inr \<lparr>Version = v, Data = bckRules\<rparr>,
                     if Enabled (Cache c3)
                     then BackendSwitchingRules_SetAll frontend transactionID bckRules c3
                     else c3))))"

definition GetBackendSwitchingRule ::
  "'e Collab \<Rightarrow> int64 \<Rightarrow> string \<Rightarrow> string \<Rightarrow> 'e Client
     \<Rightarrow> (Error + BackendSwitchingRule OKBody) \<times> 'e Client" where
  "GetBackendSwitchingRule K id' frontend transactionID c =
     (case (if Enabled (Cache c) then BackendSwitchingRules_GetOne id' frontend transactionID c
            else (None, c)) of
        (Some bckRule, c1) \<Rightarrow>
          (case Version_Get transactionID c1 of
             (v, c2) \<Rightarrow> (Inr \<lparr>Version = v, Data = bckRule\<rparr>, c2))
      | (None, c1) \<Rightarrow>
          (case executeLBCTL K ''l7-service-usefarm-show'' transactionID
                  [frontend, FormatInt id'] c1 of
             (Inl err, c2) \<Rightarrow> (Inl err, c2)
           | (Inr bckRuleStr, c2) \<Rightarrow>
               (let bckRule = parseObject K bckRuleStr \<lparr>ID = id', Fields = []\<rparr> in
                case GetVersion K transactionID c2 of
                  (Inl err, c3) \<Rightarrow> (Inl err, c3)
                | (Inr v, c3) \<Rightarrow>
                    (Inr \<lparr>Version = v, Data = bckRule\<rparr>,
                     if Enabled (Cache c3)
                     then BackendSwitchingRules_Set id' frontend transactionID bckRule c3
                     else c3))))"

definition invalidateBackendSwitchingRules :: "string \<Rightarrow> string \<Rightarrow> 'e Client \<Rightarrow> 'e Client" where
  "invalidateBackendSwitchingRules frontend transactionID c =
     (if Enabled (Cache c)
      then BackendSwitchingRules_InvalidateFrontend transactionID frontend c
      else c)"

definition DeleteBackendSwitchingRule ::
  "'e Collab \<Rightarrow> int64 \<Rightarrow> string \<Rightarrow> string \<Rightarrow> int64 \<Rightarrow> 'e Client \<Rightarrow> Error option \<times> 'e Client" where
  "DeleteBackendSwitchingRule K id' frontend transactionID version c =
     (case deleteObject K (FormatInt id') ''usefarm'' frontend ''service''
             transactionID version c of
        (Some err, c1) \<Rightarrow> (Some err, c1)
      | (None, c1) \<Rightarrow> (None, invalidateBackendSwitchingRules frontend transactionID c1))"

definition CreateBackendSwitchingRule ::
  "'e Collab \<Rightarrow> string \<Rightarrow> BackendSwitchingRule \<Rightarrow> string \<Rightarrow> int64 \<Rightarrow> 'e Client
     \<Rightarrow> Error option \<times> 'e Client" where
  "CreateBackendSwitchingRule K frontend data transactionID version c =
     (case (if UseValidation c then Validate K data else None) of
        Some validationErr \<Rightarrow> (Some (NewConfError ErrValidationError validationErr), c)
      | None \<Rightarrow>
          (case createObject K (FormatInt (ID data)) ''usefarm'' frontend ''service''
                  data [] transactionID version c of
             (Some err, c1) \<Rightarrow> (Some err, c1)
           | (None, c1) \<Rightarrow> (None, invalidateBackendSwitchingRules frontend transactionID c1)))"

definition EditBackendSwitchingRule ::
  "'e Collab \<Rightarrow> int64 \<Rightarrow> string \<Rightarrow> BackendSwitchingRule \<Rightarrow> string \<Rightarrow> int64 \<Rightarrow> 'e Client
     \<Rightarrow> Error option \<times> 'e Client" where
  "EditBackendSwitchingRule K id' frontend data transactionID version c =
     (case (if UseValidation c then Validate K data else None) of
        Some validationErr \<Rightarrow> (Some (NewConfError ErrValidationError validationErr), c)
      | None \<Rightarrow>
          (case GetBackendSwitchingRule K id' frontend transactionID c of
             (Inl err, c1) \<Rightarrow> (Some err, c1)
           | (Inr ondiskBr, c1) \<Rightarrow>
               (case editObject K (FormatInt (ID data)) ''usefarm'' frontend ''service''
                       data ondiskBr [] transactionID version c1 of
                  (Some err, c2) \<Rightarrow> (Some err, c2)
                | (None, c2) \<Rightarrow>
                    (None, invalidateBackendSwitchingRules frontend transactionID c2))))"

section \<open>Observing a run\<close>

text \<open>
  The events an operation adds to the trace, and the kinds of event the statements below
  speak of.
\<close>

definition newEvents :: "'e Client \<Rightarrow> 'e Client \<Rightarrow> Event list" where
  "newEvents c c' = drop (length (Trace c)) (Trace c')"

fun isEngineEvent :: "Event \<Rightarrow> bool" where
  "isEngineEvent (EngineRun command transactionID args) = True"
| "isEngineEvent (EngineMutate op) = True"
| "isEngineEvent ev = False"

fun isEngineRun :: "Event \<Rightarrow> bool" where
  "isEngineRun (EngineRun command transactionID args) = True"
| "isEngineRun ev = False"

fun isEngineMutate :: "Event \<Rightarrow> bool" where
  "isEngineMutate (EngineMutate op) = True"
| "isEngineMutate ev = False"

fun isInvalidate :: "Event \<Rightarrow> bool" where
  "isInvalidate (CacheInvalidate name key) = True"
| "isInvalidate ev = False"

fun isCachePopulate :: "Event \<Rightarrow> bool" where
  "isCachePopulate (CacheSetAll name key v) = True"
| "isCachePopulate (CacheSet name i key v) = True"
| "isCachePopulate ev = False"

fun isCacheEvent :: "Event \<Rightarrow> bool" where
  "isCacheEvent (EngineRun command transactionID args) = False"
| "isCacheEvent (EngineVersion transactionID) = False"
| "isCacheEvent (EngineMutate op) = False"
| "isCacheEvent ev = True"

fun engineRunWith :: "string \<Rightarrow> Event \<Rightarrow> bool" where
  "engineRunWith t (EngineRun command transactionID args) = (transactionID = t)"
| "engineRunWith t ev = True"

fun editNamed :: "string \<Rightarrow> Event \<Rightarrow> bool" where
  "editNamed n (EngineMutate (EngineEdit name objType parent parentType data ondisk
                                 transactionID version)) = (name = n)"
| "editNamed n ev = True"

section \<open>A concrete engine and client\<close>

text \<open>
  Collaborators to run the client on: an engine that counts its invocations and answers
  every dump with two records and every show with one, a version service that answers 7,
  a validation that accepts every payload, and the helpers as modelled from the spec.
  \<open>typeToLbctlType\<close> maps \<open>frontend\<close> to \<open>service\<close>, the engine's word for a frontend in
  the backend switching rule commands of the source, and \<open>backend\<close> to \<open>farm\<close>.
  \<open>downCollab\<close> is the same with an engine whose every invocation fails;
  \<open>readOnlyCollab\<close> is the same with an engine that answers reads and refuses every
  create, edit and delete.
\<close>

definition engineDown :: Error where
  "engineDown = NewConfError ErrEngine ''engine failed''"

definition demoCollab :: "nat Collab" where
  "demoCollab =
     \<lparr>typeToLbctlType =
        (\<lambda>t. if t = ''frontend'' then ''service'' else if t = ''backend'' then ''farm'' else []),
      splitHeaderLine = splitHeaderLine_spec,
      parseObject = parseObject_spec,
      Validate = (\<lambda>data. None),
      engineRun = (\<lambda>e command transactionID args.
         (Inr (if length args = 1 then ''1\<newline>name a\<newline>\<newline>2\<newline>name b\<newline>\<newline>''
               else ''1\<newline>name a''), Suc e)),
      currentVersion = (\<lambda>e transactionID. (Inr 7, e)),
      engineMutate = (\<lambda>e op. (None, Suc e))\<rparr>"

definition downCollab :: "nat Collab" where
  "downCollab =
     demoCollab\<lparr>engineRun := (\<lambda>e command transactionID args. (Inl engineDown, Suc e)),
                engineMutate := (\<lambda>e op. (Some engineDown, Suc e))\<rparr>"

definition readOnlyCollab :: "nat Collab" where
  "readOnlyCollab = demoCollab\<lparr>engineMutate := (\<lambda>e op. (Some engineDown, Suc e))\<rparr>"

definition emptyRuleCache :: "'k RuleCache" where
  "emptyRuleCache = \<lparr>collections = Map.empty, singles = Map.empty\<rparr>"

definition demoClient :: "bool \<Rightarrow> nat Client" where
  "demoClient en =
     \<lparr>UseValidation = True,
      Cache = \<lparr>enabled = en,
               BackendSwitchingRules = emptyRuleCache,
               TcpContentRequestRules = emptyRuleCache,
               TcpContentResponseRules = emptyRuleCache,
               Versions = (\<lambda>transactionID. 7)\<rparr>,
      Engine = 0,
      Trace = []\<rparr>"

definition ruleA :: Entity where
  "ruleA = \<lparr>ID = 1, Fields = [(''name'', ''a'')]\<rparr>"

definition ruleB :: Entity where
  "ruleB = \<lparr>ID = 2, Fields = [(''name'', ''b'')]\<rparr>"

section \<open>Evaluation lemmas\<close>

text \<open>
  The equations of the functions that recurse under an \<open>if\<close> are kept out of the
  simplifier's default set and given to it where a concrete input is evaluated.
\<close>

declare TrimLeftSpace.simps [simp del] TrimRightSpace.simps [simp del] natDigits.simps [simp del]

lemmas cache_calls =
  BackendSwitchingRules_Get_def BackendSwitchingRules_GetOne_def BackendSwitchingRules_SetAll_def
  BackendSwitchingRules_Set_def BackendSwitchingRules_InvalidateFrontend_def
  TcpContentRequestRules_Get_def TcpContentRequestRules_GetOne_def
  TcpContentRequestRules_SetAll_def TcpContentRequestRules_Set_def
  TcpContentRequestRules_InvalidateParent_def
  TcpContentResponseRules_Get_def TcpContentResponseRules_GetOne_def
  TcpContentResponseRules_SetAll_def TcpContentResponseRules_Set_def
  TcpContentResponseRules_InvalidateBackend_def
  Version_Get_def Enabled_def record_event_def
  rcGet_def rcGetOne_def rcSetAll_def rcSet_def rcInvalidate_def

lemmas engine_calls =
  executeLBCTL_def GetVersion_def invokeMutate_def createObject_def editObject_def
  deleteObject_def tokenError_def

lemmas client_ops =
  GetTCPContentRules_def GetTCPContentRule_def DeleteTCPContentRule_def
  CreateTCPContentRule_def EditTCPContentRule_def GetBackendSwitchingRules_def
  GetBackendSwitchingRule_def DeleteBackendSwitchingRule_def CreateBackendSwitchingRule_def
  EditBackendSwitchingRule_def invalidateTCPContentRules_def
  invalidateBackendSwitchingRules_def lbctlRTypeOf_def parentTypeError_def Let_def

lemmas parse_eval =
  parseTCPContentRules_def parseBackendSwitchingRules_def Split_def TrimSpace_def
  leadingSpace_def trailingSpace_def spaceRunes_def splitHeaderLine_spec_def
  parseObject_spec_def ParseInt_def ParseUint_def isDigit_def digitVal_def
  TrimLeftSpace.simps TrimRightSpace.simps

lemma demo_fields:
  "typeToLbctlType demoCollab t =
     (if t = ''frontend'' then ''service'' else if t = ''backend'' then ''farm'' else [])"
  "splitHeaderLine demoCollab = splitHeaderLine_spec"
  "parseObject demoCollab = parseObject_spec"
  "Validate demoCollab data = None"
  "engineRun demoCollab e command transactionID args =
     (Inr (if length args = 1 then ''1\<newline>name a\<newline>\<newline>2\<newline>name b\<newline>\<newline>''
           else ''1\<newline>name a''), Suc e)"
  "currentVersion demoCollab e transactionID = (Inr 7, e)"
  "engineMutate demoCollab e op = (None, Suc e)"
  by (simp_all add: demoCollab_def)

lemma down_fields:
  "typeToLbctlType downCollab = typeToLbctlType demoCollab"
  "splitHeaderLine downCollab = splitHeaderLine_spec"
  "parseObject downCollab = parseObject_spec"
  "Validate downCollab data = None"
  "engineRun downCollab e command transactionID args = (Inl engineDown, Suc e)"
  "currentVersion downCollab e transactionID = (Inr 7, e)"
  "engineMutate downCollab e op = (Some engineDown, Suc e)"
  by (simp_all add: downCollab_def demoCollab_def)

lemma readOnly_fields:
  "typeToLbctlType readOnlyCollab = typeToLbctlType demoCollab"
  "splitHeaderLine readOnlyCollab = splitHeaderLine_spec"
  "parseObject readOnlyCollab = parseObject_spec"
  "Validate readOnlyCollab data = None"
  "engineRun readOnlyCollab = engineRun demoCollab"
  "currentVersion readOnlyCollab e transactionID = (Inr 7, e)"
  "engineMutate readOnlyCollab e op = (Some engineDown, Suc e)"
  by (simp_all add: readOnlyCollab_def demoCollab_def)

lemma demo_parse:
  "parseTCPContentRules demoCollab ''1\<newline>name a\<newline>\<newline>2\<newline>name b\<newline>\<newline>'' = [ruleA, ruleB]"
  "parseBackendSwitchingRules demoCollab ''1\<newline>name a\<newline>\<newline>2\<newline>name b\<newline>\<newline>'' = [ruleA, ruleB]"
  "parseObject_spec ''1\<newline>name a'' \<lparr>ID = 1, Fields = []\<rparr> = ruleA"
  by (simp_all add: parse_eval demo_fields ruleA_def ruleB_def)

lemma FormatInt_small: "FormatInt 1 = ''1''" "FormatInt 2 = ''2''"
  by (simp_all add: FormatInt_def digitChar_def natDigits.simps)

lemmas demo_eval =
  client_ops cache_calls engine_calls demo_fields down_fields readOnly_fields
  demo_parse demoClient_def emptyRuleCache_def newEvents_def FormatInt_small

section \<open>The record parser: splitting, skipping, inflating\<close>

text \<open>Splitting loses nothing: joining the pieces with the separator gives the string back.\<close>

lemma genSplit_not_Nil: "genSplit sep cur s \<noteq> []"
  by (induction sep cur s rule: genSplit.induct) auto

lemma Join_Cons: "xs \<noteq> [] \<Longrightarrow> Join (x # xs) sep = x @ sep @ Join xs sep"
  by (cases xs) simp_all

lemma Join_genSplit: "Join (genSplit sep cur s) sep = cur @ s"
proof (induction sep cur s rule: genSplit.induct)
  case (1 sep cur)
  show ?case by simp
next
  case (2 sep cur c cs)
  show ?case
  proof (cases "sep \<noteq> [] \<and> take (length sep) (c # cs) = sep")
    case True
    then have "Join (genSplit sep cur (c # cs)) sep
        = cur @ sep @ Join (genSplit sep [] (drop (length sep) (c # cs))) sep"
      by (simp add: Join_Cons genSplit_not_Nil)
    also have "\<dots> = cur @ sep @ drop (length sep) (c # cs)"
      using 2(1) True by simp
    also have "\<dots> = cur @ take (length sep) (c # cs) @ drop (length sep) (c # cs)"
      using True by simp
    finally show ?thesis by simp
  next
    case False
    with 2(2) show ?thesis by auto
  qed
qed

lemma Join_Split: "Join (Split s sep) sep = s"
  by (simp add: Split_def Join_genSplit)

lemma parseTCPContentRules_loop_acc:
  "parseTCPContentRules_loop K acc blocks =
     acc @ map (inflate K) (filter (\<lambda>block. TrimSpace block \<noteq> []) blocks)"
  by (induction blocks arbitrary: acc) (simp_all add: inflate_def Let_def)

lemma parseBackendSwitchingRules_loop_acc:
  "parseBackendSwitchingRules_loop K acc blocks =
     acc @ map (inflate K) (filter (\<lambda>block. TrimSpace block \<noteq> []) blocks)"
  by (induction blocks arbitrary: acc) (simp_all add: inflate_def Let_def)

lemma parse_is_spec_parse:
  "parseTCPContentRules K response = spec_parse K response"
  "parseBackendSwitchingRules K response = spec_parse K response"
  by (simp_all add: parseTCPContentRules_def parseBackendSwitchingRules_def spec_parse_def
        parseTCPContentRules_loop_acc parseBackendSwitchingRules_loop_acc)

lemma TrimSpace_Nil: "TrimSpace [] = []"
  by (simp add: parse_eval)

text \<open>
  C3. For every input string, \<open>parseTCPContentRules\<close> and \<open>parseBackendSwitchingRules\<close>
  return exactly the sequence obtained by splitting the string on blank-line boundaries,
  skipping the blocks that are empty after trimming whitespace, and inflating each
  remaining block, in the order of the input. With the header line and the field inflation
  as the spec describes them, the blob of two records with headers 1 and 2 gives two
  entities with the identifiers 1 and 2 in that order, and the all-blank blob gives the
  empty collection, whatever the helpers are.
\<close>

theorem parse_splits_skips_inflates:
  "parseTCPContentRules K response = spec_parse K response
   \<and> parseBackendSwitchingRules K response = spec_parse K response
   \<and> map ID (parseTCPContentRules
        (K\<lparr>splitHeaderLine := splitHeaderLine_spec, parseObject := parseObject_spec\<rparr>)
        ''1\<newline>name a\<newline>\<newline>2\<newline>name b\<newline>\<newline>'') = [1, 2]
   \<and> map ID (parseBackendSwitchingRules
        (K\<lparr>splitHeaderLine := splitHeaderLine_spec, parseObject := parseObject_spec\<rparr>)
        ''1\<newline>name a\<newline>\<newline>2\<newline>name b\<newline>\<newline>'') = [1, 2]
   \<and> parseTCPContentRules K ''\<newline>\<newline>'' = []
   \<and> parseBackendSwitchingRules K ''\<newline>\<newline>'' = []"
proof -
  have ids: "map ID (parseTCPContentRules
        (K\<lparr>splitHeaderLine := splitHeaderLine_spec, parseObject := parseObject_spec\<rparr>)
        ''1\<newline>name a\<newline>\<newline>2\<newline>name b\<newline>\<newline>'') = [1, 2]"
    by (simp add: parse_eval)
  have ids': "map ID (parseBackendSwitchingRules
        (K\<lparr>splitHeaderLine := splitHeaderLine_spec, parseObject := parseObject_spec\<rparr>)
        ''1\<newline>name a\<newline>\<newline>2\<newline>name b\<newline>\<newline>'') = [1, 2]"
    by (simp add: parse_eval)
  have blank: "spec_parse K ''\<newline>\<newline>'' = []"
    by (simp add: spec_parse_def Split_def TrimSpace_Nil)
  show ?thesis
    using ids ids' by (simp add: parse_is_spec_parse blank)
qed

text \<open>
  C4. \<open>parseTCPContentRules\<close> and \<open>parseBackendSwitchingRules\<close> are total and return no
  error: every block that is not blank gives one entity, whose identifier is the parsed
  header token, and 0 when the header token is not a valid integer (provided the field
  inflation leaves the identifier alone); so several entities with the identifier 0 can
  stand in one collection, as for the blob of the two records headed x and y.
\<close>

theorem parse_never_fails_zero_id:
  assumes "\<forall>s obj. ID (parseObject K s obj) = ID obj"
  shows "map ID (parseTCPContentRules K response)
           = map (headerID K) (filter (\<lambda>block. TrimSpace block \<noteq> []) (Split response ''\<newline>\<newline>''))
         \<and> map ID (parseBackendSwitchingRules K response)
           = map (headerID K) (filter (\<lambda>block. TrimSpace block \<noteq> []) (Split response ''\<newline>\<newline>''))
         \<and> (\<forall>block e. ParseInt (fst (splitHeaderLine K block)) = Inl e \<longrightarrow> headerID K block = 0)
         \<and> map ID (parseTCPContentRules demoCollab ''x\<newline>name a\<newline>\<newline>y\<newline>name b'') = [0, 0]
         \<and> map ID (parseBackendSwitchingRules demoCollab ''x\<newline>name a\<newline>\<newline>y\<newline>name b'') = [0, 0]"
proof -
  have id_inflate: "ID (inflate K block) = headerID K block" for block
    using assms by (simp add: inflate_def headerID_def)
  have ids: "map ID (spec_parse K response)
      = map (headerID K) (filter (\<lambda>block. TrimSpace block \<noteq> []) (Split response ''\<newline>\<newline>''))"
    by (simp add: spec_parse_def id_inflate)
  have zero: "\<forall>block e. ParseInt (fst (splitHeaderLine K block)) = Inl e \<longrightarrow> headerID K block = 0"
    by (simp add: headerID_def)
  have two: "map ID (parseTCPContentRules demoCollab ''x\<newline>name a\<newline>\<newline>y\<newline>name b'') = [0, 0]"
    by (simp add: parse_eval demo_fields)
  have two': "map ID (parseBackendSwitchingRules demoCollab ''x\<newline>name a\<newline>\<newline>y\<newline>name b'') = [0, 0]"
    by (simp add: parse_eval demo_fields)
  show ?thesis
    using ids zero two two' by (simp add: parse_is_spec_parse(1)) (simp add: parse_is_spec_parse(2))
qed

theorem parse_never_fails_zero_id_witness:
  "(\<forall>s obj. ID (parseObject demoCollab s obj) = ID obj)
   \<and> ParseInt (fst (splitHeaderLine demoCollab ''x\<newline>name a'')) = Inl ErrSyntax
   \<and> map ID (parseTCPContentRules demoCollab ''x\<newline>name a\<newline>\<newline>7\<newline>name b'') = [0, 7]
   \<and> map ID (parseBackendSwitchingRules demoCollab ''x\<newline>name a\<newline>\<newline>7\<newline>name b'') = [0, 7]"
proof -
  have keeps: "\<forall>s obj. ID (parseObject demoCollab s obj) = ID obj"
    by (simp add: demo_fields parseObject_spec_def)
  have split: "Split ''x\<newline>name a\<newline>\<newline>7\<newline>name b'' ''\<newline>\<newline>'' = [''x\<newline>name a'', ''7\<newline>name b'']"
    by (simp add: Split_def)
  have trim: "TrimSpace ''x\<newline>name a'' \<noteq> []" "TrimSpace ''7\<newline>name b'' \<noteq> []"
    by (simp_all add: parse_eval)
  have blocks: "filter (\<lambda>block. TrimSpace block \<noteq> []) (Split ''x\<newline>name a\<newline>\<newline>7\<newline>name b'' ''\<newline>\<newline>'')
      = [''x\<newline>name a'', ''7\<newline>name b'']"
    unfolding split using trim by simp
  have hdr: "ParseInt (fst (splitHeaderLine demoCollab ''x\<newline>name a'')) = Inl ErrSyntax"
    by (simp add: demo_fields parse_eval)
  have ids: "headerID demoCollab ''x\<newline>name a'' = 0" "headerID demoCollab ''7\<newline>name b'' = 7"
    by (simp_all add: headerID_def demo_fields parse_eval)
  show ?thesis
    using parse_never_fails_zero_id [OF keeps, of "''x\<newline>name a\<newline>\<newline>7\<newline>name b''"] keeps hdr
    unfolding blocks by (simp add: ids)
qed

section \<open>Response rules under a frontend\<close>

text \<open>
  The mutating operations test the rule type against the parent type before they touch
  the cache or the engine: a response rule under a frontend is a validation error that
  leaves the client as it was.
\<close>

lemma response_frontend_mutations_rejected:
  "CreateTCPContentRule K ''frontend'' parentName ''response'' data transactionID version c
     = (r, c') \<Longrightarrow> (\<exists>e. r = Some e \<and> isValidationError e) \<and> c' = c"
  "DeleteTCPContentRule K id' ''frontend'' parentName ''response'' transactionID version c
     = (r, c') \<Longrightarrow> (\<exists>e. r = Some e \<and> isValidationError e) \<and> c' = c"
  "EditTCPContentRule K id' ''frontend'' parentName ''response'' data transactionID version c
     = (r, c') \<Longrightarrow> (\<exists>e. r = Some e \<and> isValidationError e) \<and> c' = c"
  by (auto simp add: client_ops split: option.splits if_splits)

text \<open>
  C1. A TCP content rule operation with rule type \<open>response\<close> and parent type
  \<open>frontend\<close> should fail with a validation error before any cache read. The two Get
  operations read the cache first, and the response cache is keyed by parent name and
  transaction only: after the response rules of the backend \<open>web\<close> have been read in
  transaction \<open>t1\<close>, the request for the response rules of the frontend \<open>web\<close> reads the
  cache, finds the backend's entry and returns it with the cached version, and the same
  happens for a single rule.
\<close>

theorem response_frontend_get_served_from_cache:
  "fst (GetTCPContentRules demoCollab ''frontend'' ''web'' ''response'' ''t1''
          (snd (GetTCPContentRules demoCollab ''backend'' ''web'' ''response'' ''t1''
                  (demoClient True))))
     = Inr \<lparr>Version = 7, Data = [ruleA, ruleB]\<rparr>
   \<and> newEvents
        (snd (GetTCPContentRules demoCollab ''backend'' ''web'' ''response'' ''t1''
                (demoClient True)))
        (snd (GetTCPContentRules demoCollab ''frontend'' ''web'' ''response'' ''t1''
          (snd (GetTCPContentRules demoCollab ''backend'' ''web'' ''response'' ''t1''
                  (demoClient True)))))
     = [CacheGet ''TcpContentResponseRules'' [''web'', ''t1''], CacheVersionGet ''t1'']
   \<and> fst (GetTCPContentRule demoCollab 1 ''frontend'' ''web'' ''response'' ''t1''
          (snd (GetTCPContentRule demoCollab 1 ''backend'' ''web'' ''response'' ''t1''
                  (demoClient True))))
     = Inr \<lparr>Version = 7, Data = ruleA\<rparr>
   \<and> newEvents
        (snd (GetTCPContentRule demoCollab 1 ''backend'' ''web'' ''response'' ''t1''
                (demoClient True)))
        (snd (GetTCPContentRule demoCollab 1 ''frontend'' ''web'' ''response'' ''t1''
          (snd (GetTCPContentRule demoCollab 1 ''backend'' ''web'' ''response'' ''t1''
                  (demoClient True)))))
     = [CacheGetOne ''TcpContentResponseRules'' 1 [''web'', ''t1''], CacheVersionGet ''t1'']"
  by (simp add: demo_eval)

section \<open>The concurrency token\<close>

lemmas op_splits = prod.splits sum.splits option.splits if_splits

lemma tokenError_validation:
  assumes "(transactionID = [] \<and> version = 0) \<or> (transactionID \<noteq> [] \<and> version \<noteq> 0)"
  shows "\<exists>e. tokenError transactionID version = Some e \<and> isValidationError e"
  using assms by (auto simp: tokenError_def)

lemma lbctlRTypeOf_error: "lbctlRTypeOf ruleType parentType = Inl e \<Longrightarrow> isValidationError e"
  by (auto simp: lbctlRTypeOf_def split: if_splits)

lemma create_delete_token:
  assumes "(transactionID = [] \<and> version = 0) \<or> (transactionID \<noteq> [] \<and> version \<noteq> 0)"
  shows "\<exists>e. CreateTCPContentRule K parentType parentName ruleType data transactionID version c
          = (Some e, c) \<and> isValidationError e"
    and "\<exists>e. DeleteTCPContentRule K id' parentType parentName ruleType transactionID version c
          = (Some e, c) \<and> isValidationError e"
    and "\<exists>e. CreateBackendSwitchingRule K frontend data transactionID version c
          = (Some e, c) \<and> isValidationError e"
    and "\<exists>e. DeleteBackendSwitchingRule K id' frontend transactionID version c
          = (Some e, c) \<and> isValidationError e"
  using tokenError_validation [OF assms]
  by (auto simp: CreateTCPContentRule_def DeleteTCPContentRule_def CreateBackendSwitchingRule_def
        DeleteBackendSwitchingRule_def createObject_def deleteObject_def parentTypeError_def Let_def
        dest: lbctlRTypeOf_error split: op_splits)




lemma GetBackendSwitchingRule_trace:
  assumes "GetBackendSwitchingRule K id' frontend transactionID c = (r, c')"
  shows "Trace c' = Trace c @ newEvents c c' \<and> filter isEngineMutate (newEvents c c') = []
     \<and> filter isInvalidate (newEvents c c') = [] \<and> enabled (Cache c') = enabled (Cache c)"
  using assms
  by (auto simp: GetBackendSwitchingRule_def cache_calls executeLBCTL_def GetVersion_def Let_def
        newEvents_def split: op_splits)

lemma GetTCPContentRule_trace:
  assumes "GetTCPContentRule K id' parentType parentName ruleType transactionID c = (r, c')"
  shows "Trace c' = Trace c @ newEvents c c' \<and> filter isEngineMutate (newEvents c c') = []
     \<and> filter isInvalidate (newEvents c c') = [] \<and> enabled (Cache c') = enabled (Cache c)"
  using assms
  by (auto simp: GetTCPContentRule_def cache_calls executeLBCTL_def GetVersion_def Let_def
        newEvents_def split: op_splits)

lemma edit_bsr_token:
  assumes "(transactionID = [] \<and> version = 0) \<or> (transactionID \<noteq> [] \<and> version \<noteq> 0)"
    and "EditBackendSwitchingRule K id' frontend data transactionID version c = (r, c')"
  shows "\<exists>e. r = Some e
           \<and> (isValidationError e \<or> fst (GetBackendSwitchingRule K id' frontend transactionID c) = Inl e)"
    and "filter isEngineMutate (newEvents c c') = []"
proof -
  obtain r1 c1 where g: "GetBackendSwitchingRule K id' frontend transactionID c = (r1, c1)"
    by force
  from GetBackendSwitchingRule_trace [OF g]
  obtain evs where tr: "Trace c1 = Trace c @ evs" "filter isEngineMutate evs = []"
    by blast
  from tokenError_validation [OF assms(1)]
  obtain te where te: "tokenError transactionID version = Some te" "isValidationError te"
    by auto
  show "\<exists>e. r = Some e
           \<and> (isValidationError e \<or> fst (GetBackendSwitchingRule K id' frontend transactionID c) = Inl e)"
    using te(2) assms(2) by (auto simp: te(1) EditBackendSwitchingRule_def g editObject_def split: op_splits)
  show "filter isEngineMutate (newEvents c c') = []"
    using te(2) tr assms(2)
    by (auto simp: te(1) EditBackendSwitchingRule_def g editObject_def newEvents_def split: op_splits)
qed

lemma edit_tcp_token:
  assumes "(transactionID = [] \<and> version = 0) \<or> (transactionID \<noteq> [] \<and> version \<noteq> 0)"
    and "EditTCPContentRule K id' parentType parentName ruleType data transactionID version c = (r, c')"
  shows "\<exists>e. r = Some e
           \<and> (isValidationError e \<or> fst (GetTCPContentRule K id' parentType parentName ruleType transactionID c) = Inl e)"
    and "filter isEngineMutate (newEvents c c') = []"
proof -
  obtain r1 c1 where g: "GetTCPContentRule K id' parentType parentName ruleType transactionID c = (r1, c1)"
    by force
  from GetTCPContentRule_trace [OF g]
  obtain evs where tr: "Trace c1 = Trace c @ evs" "filter isEngineMutate evs = []"
    by blast
  from tokenError_validation [OF assms(1)]
  obtain te where te: "tokenError transactionID version = Some te" "isValidationError te"
    by auto
  show "\<exists>e. r = Some e
           \<and> (isValidationError e \<or> fst (GetTCPContentRule K id' parentType parentName ruleType transactionID c) = Inl e)"
    using te(2) assms(2) by (auto simp: te(1) EditTCPContentRule_def g editObject_def parentTypeError_def Let_def
          dest: lbctlRTypeOf_error split: op_splits)
  show "filter isEngineMutate (newEvents c c') = []"
    using te(2) tr assms(2)
    by (auto simp: te(1) EditTCPContentRule_def g editObject_def Let_def newEvents_def split: op_splits)
qed

text \<open>
  C2, as stated, fails for the Edit operations: they fetch the pre-image before the token
  is looked at. With both a transaction and a version supplied and an engine that is
  down, \<open>EditBackendSwitchingRule\<close> invokes the engine's show and returns the engine's
  error, which is no validation error.
\<close>

theorem edit_invokes_engine_before_token_check:
  "fst (EditBackendSwitchingRule downCollab 1 ''web'' ruleA ''t1'' 5 (demoClient False))
     = Some engineDown
   \<and> \<not> isValidationError engineDown
   \<and> Trace (snd (EditBackendSwitchingRule downCollab 1 ''web'' ruleA ''t1'' 5 (demoClient False)))
       = [EngineRun ''l7-service-usefarm-show'' ''t1'' [''web'', ''1'']]"
  by (simp add: demo_eval engineDown_def)

text \<open>
  C2, amended. When neither or both of the transaction and the version are supplied, the
  Create and Delete operations return a validation error and leave the client as it was:
  no cache or engine call is made. The Edit operations return an error and never invoke
  the engine's edit; the error is a validation error unless the Get-one that fetches the
  pre-image fails, in which case it is that Get-one's error.
\<close>

theorem token_checked_before_engine_mutation:
  assumes "(transactionID = [] \<and> version = 0) \<or> (transactionID \<noteq> [] \<and> version \<noteq> 0)"
  shows "(\<exists>e. CreateTCPContentRule K parentType parentName ruleType data transactionID version c
            = (Some e, c) \<and> isValidationError e)
       \<and> (\<exists>e. DeleteTCPContentRule K id' parentType parentName ruleType transactionID version c
            = (Some e, c) \<and> isValidationError e)
       \<and> (\<exists>e. CreateBackendSwitchingRule K frontend data transactionID version c
            = (Some e, c) \<and> isValidationError e)
       \<and> (\<exists>e. DeleteBackendSwitchingRule K id' frontend transactionID version c
            = (Some e, c) \<and> isValidationError e)
       \<and> (\<exists>e. fst (EditTCPContentRule K id' parentType parentName ruleType data transactionID
                      version c) = Some e
              \<and> (isValidationError e
                  \<or> fst (GetTCPContentRule K id' parentType parentName ruleType transactionID c)
                       = Inl e))
       \<and> filter isEngineMutate (newEvents c (snd (EditTCPContentRule K id' parentType parentName
            ruleType data transactionID version c))) = []
       \<and> (\<exists>e. fst (EditBackendSwitchingRule K id' frontend data transactionID version c) = Some e
              \<and> (isValidationError e
                  \<or> fst (GetBackendSwitchingRule K id' frontend transactionID c) = Inl e))
       \<and> filter isEngineMutate (newEvents c (snd (EditBackendSwitchingRule K id' frontend data
            transactionID version c))) = []"
  by (intro conjI create_delete_token [OF assms]
        edit_tcp_token [OF assms surjective_pairing]
        edit_bsr_token [OF assms surjective_pairing])

theorem token_checked_before_engine_mutation_witness:
  "((''t1'' = [] \<and> (5 :: int64) = 0) \<or> (''t1'' \<noteq> [] \<and> (5 :: int64) \<noteq> 0))
   \<and> CreateTCPContentRule demoCollab ''backend'' ''web'' ''request'' ruleA ''t1'' 5 (demoClient True)
       = (Some (NewConfError ErrValidationError ''Both version and transaction specified''),
          demoClient True)
   \<and> (\<exists>e. DeleteBackendSwitchingRule demoCollab 1 ''web'' ''t1'' 5 (demoClient True)
            = (Some e, demoClient True) \<and> isValidationError e)
   \<and> filter isEngineMutate (newEvents (demoClient True)
        (snd (EditBackendSwitchingRule demoCollab 1 ''web'' ruleA ''t1'' 5 (demoClient True)))) = []"
proof -
  have tok: "(''t1'' = [] \<and> (5 :: int64) = 0) \<or> (''t1'' \<noteq> [] \<and> (5 :: int64) \<noteq> 0)"
    by simp
  have create: "CreateTCPContentRule demoCollab ''backend'' ''web'' ''request'' ruleA ''t1'' 5 (demoClient True)
       = (Some (NewConfError ErrValidationError ''Both version and transaction specified''),
          demoClient True)"
    by (simp add: demo_eval)
  from token_checked_before_engine_mutation [OF tok, where K = demoCollab and c = "demoClient True"
      and id' = 1 and frontend = "''web''" and data = ruleA and parentType = "''backend''"
      and parentName = "''web''" and ruleType = "''request''"]
  show ?thesis using tok create by blast
qed

section \<open>Invalidation after a mutation\<close>





lemma rcInvalidate_drops:
  "rcGet en (rcInvalidate True rc k) k = None"
  "rcGetOne en (rcInvalidate True rc k) i k = None"
  "k' \<noteq> k \<Longrightarrow> rcGet en (rcInvalidate True rc k) k' = rcGet en rc k'"
  "k' \<noteq> k \<Longrightarrow> rcGetOne en (rcInvalidate True rc k) i k' = rcGetOne en rc i k'"
  by (simp_all add: rcGet_def rcGetOne_def rcInvalidate_def)




section \<open>Reading with the cache disabled\<close>

lemma newEvents_trans:
  assumes "Trace c1 = Trace c @ newEvents c c1" and "Trace c2 = Trace c1 @ newEvents c1 c2"
  shows "newEvents c c2 = newEvents c c1 @ newEvents c1 c2"
    and "Trace c2 = Trace c @ newEvents c c2"
proof -
  have "Trace c2 = Trace c @ (newEvents c c1 @ newEvents c1 c2)"
    using assms by (metis append.assoc)
  then show "newEvents c c2 = newEvents c c1 @ newEvents c1 c2"
    by (simp add: newEvents_def [of c c2])
  then show "Trace c2 = Trace c @ newEvents c c2"
    using assms by (metis append.assoc)
qed

lemma GetBackendSwitchingRules_disabled:
  assumes "\<not> enabled (Cache c)"
    and "GetBackendSwitchingRules K frontend transactionID c = (r, c')"
  shows "Trace c' = Trace c @ newEvents c c'"
    and "filter isEngineRun (newEvents c c')
           = [EngineRun ''l7-service-usefarm-dump'' transactionID [frontend]]"
    and "filter isCacheEvent (newEvents c c') = []"
    and "Cache c' = Cache c"
    and "engineRun K (Engine c) ''l7-service-usefarm-dump'' transactionID [frontend] = (Inr raw, e1)
         \<Longrightarrow> currentVersion K e1 transactionID = (Inr v, e2)
         \<Longrightarrow> r = Inr \<lparr>Version = v, Data = parseBackendSwitchingRules K raw\<rparr> \<and> Engine c' = e2"
  using assms
  by (auto simp: GetBackendSwitchingRules_def cache_calls executeLBCTL_def GetVersion_def Let_def
        newEvents_def split: op_splits)

lemma GetTCPContentRules_disabled:
  assumes "\<not> enabled (Cache c)"
    and "typeToLbctlType K parentType \<noteq> []"
    and "lbctlRTypeOf ruleType parentType = Inr lbctlRType"
    and "GetTCPContentRules K parentType parentName ruleType transactionID c = (r, c')"
  shows "Trace c' = Trace c @ newEvents c c'"
    and "filter isEngineRun (newEvents c c')
           = [EngineRun (''l7-'' @ typeToLbctlType K parentType @ ''-'' @ lbctlRType @ ''-dump'')
                [] [parentName]]"
    and "filter isCacheEvent (newEvents c c') = []"
    and "Cache c' = Cache c"
    and "engineRun K (Engine c)
           (''l7-'' @ typeToLbctlType K parentType @ ''-'' @ lbctlRType @ ''-dump'') [] [parentName]
           = (Inr raw, e1)
         \<Longrightarrow> currentVersion K e1 transactionID = (Inr v, e2)
         \<Longrightarrow> r = Inr \<lparr>Version = v, Data = parseTCPContentRules K raw\<rparr> \<and> Engine c' = e2"
  using assms
  by (auto simp: GetTCPContentRules_def cache_calls executeLBCTL_def GetVersion_def Let_def
        newEvents_def split: op_splits)


lemma GetBackendSwitchingRules_disabled_twice:
  assumes off: "\<not> enabled (Cache c)"
  shows "filter isEngineRun (newEvents c (snd (GetBackendSwitchingRules K frontend transactionID c)))
           = [EngineRun ''l7-service-usefarm-dump'' transactionID [frontend]]
       \<and> filter isEngineRun (newEvents c (snd (GetBackendSwitchingRules K frontend transactionID
             (snd (GetBackendSwitchingRules K frontend transactionID c)))))
           = [EngineRun ''l7-service-usefarm-dump'' transactionID [frontend],
              EngineRun ''l7-service-usefarm-dump'' transactionID [frontend]]
       \<and> filter isCacheEvent (newEvents c (snd (GetBackendSwitchingRules K frontend transactionID
             (snd (GetBackendSwitchingRules K frontend transactionID c))))) = []
       \<and> Cache (snd (GetBackendSwitchingRules K frontend transactionID
             (snd (GetBackendSwitchingRules K frontend transactionID c)))) = Cache c
       \<and> (\<forall>raw v e1 e2 e3 e4.
             engineRun K (Engine c) ''l7-service-usefarm-dump'' transactionID [frontend] = (Inr raw, e1)
             \<and> currentVersion K e1 transactionID = (Inr v, e2)
             \<and> engineRun K e2 ''l7-service-usefarm-dump'' transactionID [frontend] = (Inr raw, e3)
             \<and> currentVersion K e3 transactionID = (Inr v, e4)
             \<longrightarrow> fst (GetBackendSwitchingRules K frontend transactionID c)
                   = Inr \<lparr>Version = v, Data = parseBackendSwitchingRules K raw\<rparr>
               \<and> fst (GetBackendSwitchingRules K frontend transactionID
                        (snd (GetBackendSwitchingRules K frontend transactionID c)))
                   = Inr \<lparr>Version = v, Data = parseBackendSwitchingRules K raw\<rparr>)"
proof -
  obtain r1 c1 where g1: "GetBackendSwitchingRules K frontend transactionID c = (r1, c1)"
    by force
  obtain r2 c2 where g2: "GetBackendSwitchingRules K frontend transactionID c1 = (r2, c2)"
    by force
  note first = GetBackendSwitchingRules_disabled [OF off g1]
  from first(4) off have off1: "\<not> enabled (Cache c1)" by simp
  note second = GetBackendSwitchingRules_disabled [OF off1 g2]
  note both = newEvents_trans [OF first(1) second(1)]
  have same: "r1 = Inr \<lparr>Version = v, Data = parseBackendSwitchingRules K raw\<rparr>
      \<and> r2 = Inr \<lparr>Version = v, Data = parseBackendSwitchingRules K raw\<rparr>"
    if "engineRun K (Engine c) ''l7-service-usefarm-dump'' transactionID [frontend] = (Inr raw, e1)"
      and "currentVersion K e1 transactionID = (Inr v, e2)"
      and "engineRun K e2 ''l7-service-usefarm-dump'' transactionID [frontend] = (Inr raw, e3)"
      and "currentVersion K e3 transactionID = (Inr v, e4)"
    for raw v e1 e2 e3 e4
  proof -
    from first(5) [OF that(1,2)] have r1: "r1 = Inr \<lparr>Version = v, Data = parseBackendSwitchingRules K raw\<rparr>"
      and e: "Engine c1 = e2" by simp_all
    from second(5) [of raw e3 v e4] that(3,4) e
    have "r2 = Inr \<lparr>Version = v, Data = parseBackendSwitchingRules K raw\<rparr>" by simp
    with r1 show ?thesis by simp
  qed
  show ?thesis
    using first(2,3,4) second(2,3,4) both(1) same by (simp add: g1 g2)
qed

lemma GetTCPContentRules_disabled_twice:
  assumes off: "\<not> enabled (Cache c)"
    and pt: "typeToLbctlType K parentType \<noteq> []"
    and rt: "lbctlRTypeOf ruleType parentType = Inr lbctlRType"
  shows "filter isEngineRun (newEvents c (snd (GetTCPContentRules K parentType parentName ruleType
             transactionID c)))
           = [EngineRun (''l7-'' @ typeToLbctlType K parentType @ ''-'' @ lbctlRType @ ''-dump'')
                [] [parentName]]
       \<and> filter isEngineRun (newEvents c (snd (GetTCPContentRules K parentType parentName ruleType
             transactionID (snd (GetTCPContentRules K parentType parentName ruleType
             transactionID c)))))
           = [EngineRun (''l7-'' @ typeToLbctlType K parentType @ ''-'' @ lbctlRType @ ''-dump'')
                [] [parentName],
              EngineRun (''l7-'' @ typeToLbctlType K parentType @ ''-'' @ lbctlRType @ ''-dump'')
                [] [parentName]]
       \<and> filter isCacheEvent (newEvents c (snd (GetTCPContentRules K parentType parentName ruleType
             transactionID (snd (GetTCPContentRules K parentType parentName ruleType
             transactionID c))))) = []
       \<and> Cache (snd (GetTCPContentRules K parentType parentName ruleType
             transactionID (snd (GetTCPContentRules K parentType parentName ruleType
             transactionID c)))) = Cache c
       \<and> (\<forall>raw v e1 e2 e3 e4.
             engineRun K (Engine c)
               (''l7-'' @ typeToLbctlType K parentType @ ''-'' @ lbctlRType @ ''-dump'') []
               [parentName] = (Inr raw, e1)
             \<and> currentVersion K e1 transactionID = (Inr v, e2)
             \<and> engineRun K e2
               (''l7-'' @ typeToLbctlType K parentType @ ''-'' @ lbctlRType @ ''-dump'') []
               [parentName] = (Inr raw, e3)
             \<and> currentVersion K e3 transactionID = (Inr v, e4)
             \<longrightarrow> fst (GetTCPContentRules K parentType parentName ruleType transactionID c)
                   = Inr \<lparr>Version = v, Data = parseTCPContentRules K raw\<rparr>
               \<and> fst (GetTCPContentRules K parentType parentName ruleType transactionID
                        (snd (GetTCPContentRules K parentType parentName ruleType transactionID c)))
                   = Inr \<lparr>Version = v, Data = parseTCPContentRules K raw\<rparr>)"
proof -
  obtain r1 c1 where g1: "GetTCPContentRules K parentType parentName ruleType transactionID c = (r1, c1)"
    by force
  obtain r2 c2 where g2: "GetTCPContentRules K parentType parentName ruleType transactionID c1 = (r2, c2)"
    by force
  note first = GetTCPContentRules_disabled [OF off pt rt g1]
  from first(4) off have off1: "\<not> enabled (Cache c1)" by simp
  note second = GetTCPContentRules_disabled [OF off1 pt rt g2]
  note both = newEvents_trans [OF first(1) second(1)]
  have same: "r1 = Inr \<lparr>Version = v, Data = parseTCPContentRules K raw\<rparr>
      \<and> r2 = Inr \<lparr>Version = v, Data = parseTCPContentRules K raw\<rparr>"
    if "engineRun K (Engine c)
               (''l7-'' @ typeToLbctlType K parentType @ ''-'' @ lbctlRType @ ''-dump'') []
               [parentName] = (Inr raw, e1)"
      and "currentVersion K e1 transactionID = (Inr v, e2)"
      and "engineRun K e2
               (''l7-'' @ typeToLbctlType K parentType @ ''-'' @ lbctlRType @ ''-dump'') []
               [parentName] = (Inr raw, e3)"
      and "currentVersion K e3 transactionID = (Inr v, e4)"
    for raw v e1 e2 e3 e4
  proof -
    from first(5) [OF that(1,2)] have r1: "r1 = Inr \<lparr>Version = v, Data = parseTCPContentRules K raw\<rparr>"
      and e: "Engine c1 = e2" by simp_all
    from second(5) [of raw e3 v e4] that(3,4) e
    have "r2 = Inr \<lparr>Version = v, Data = parseTCPContentRules K raw\<rparr>" by simp
    with r1 show ?thesis by simp
  qed
  show ?thesis
    using first(2,3,4) second(2,3,4) both(1) same by (simp add: g1 g2)
qed

text \<open>
  C6, as stated, fails for \<open>GetTCPContentRules\<close>: not every call performs an engine
  invocation, since a parent type or rule type that does not pass validation is rejected
  before the engine is reached, with the cache disabled as with it enabled.
\<close>

theorem disabled_cache_get_rejected_without_engine:
  "GetTCPContentRules demoCollab ''backend'' ''web'' ''bogus'' ''t1'' (demoClient False)
     = (Inl (NewConfError ErrValidationError ''Rule type bogus not recognized''),
        demoClient False)
   \<and> \<not> enabled (Cache (demoClient False))
   \<and> filter isEngineEvent (Trace (demoClient False)) = []"
  by (simp add: demo_eval)

text \<open>
  C6, amended. With the cache disabled, \<open>GetBackendSwitchingRules\<close>, and
  \<open>GetTCPContentRules\<close> for a parent type and a rule type that pass validation, perform
  exactly one engine invocation on each call: two consecutive calls for the same scope
  and transaction perform two engine invocations, make no call to the cache and leave it
  as it was; and when the engine gives the same raw output and the version service the
  same version on both calls, both calls return the same version with the same decoded
  content.
\<close>

theorem disabled_cache_get_invokes_engine_each_call:
  assumes off: "\<not> enabled (Cache c)"
    and pt: "typeToLbctlType K parentType \<noteq> []"
    and rt: "lbctlRTypeOf ruleType parentType = Inr lbctlRType"
  shows "(filter isEngineRun (newEvents c (snd (GetBackendSwitchingRules K frontend transactionID c)))
           = [EngineRun ''l7-service-usefarm-dump'' transactionID [frontend]]
       \<and> filter isEngineRun (newEvents c (snd (GetBackendSwitchingRules K frontend transactionID
             (snd (GetBackendSwitchingRules K frontend transactionID c)))))
           = [EngineRun ''l7-service-usefarm-dump'' transactionID [frontend],
              EngineRun ''l7-service-usefarm-dump'' transactionID [frontend]]
       \<and> filter isCacheEvent (newEvents c (snd (GetBackendSwitchingRules K frontend transactionID
             (snd (GetBackendSwitchingRules K frontend transactionID c))))) = []
       \<and> Cache (snd (GetBackendSwitchingRules K frontend transactionID
             (snd (GetBackendSwitchingRules K frontend transactionID c)))) = Cache c
       \<and> (\<forall>raw v e1 e2 e3 e4.
             engineRun K (Engine c) ''l7-service-usefarm-dump'' transactionID [frontend] = (Inr raw, e1)
             \<and> currentVersion K e1 transactionID = (Inr v, e2)
             \<and> engineRun K e2 ''l7-service-usefarm-dump'' transactionID [frontend] = (Inr raw, e3)
             \<and> currentVersion K e3 transactionID = (Inr v, e4)
             \<longrightarrow> fst (GetBackendSwitchingRules K frontend transactionID c)
                   = Inr \<lparr>Version = v, Data = parseBackendSwitchingRules K raw\<rparr>
               \<and> fst (GetBackendSwitchingRules K frontend transactionID
                        (snd (GetBackendSwitchingRules K frontend transactionID c)))
                   = Inr \<lparr>Version = v, Data = parseBackendSwitchingRules K raw\<rparr>))
       \<and> (filter isEngineRun (newEvents c (snd (GetTCPContentRules K parentType parentName ruleType
             transactionID c)))
           = [EngineRun (''l7-'' @ typeToLbctlType K parentType @ ''-'' @ lbctlRType @ ''-dump'')
                [] [parentName]]
       \<and> filter isEngineRun (newEvents c (snd (GetTCPContentRules K parentType parentName ruleType
             transactionID (snd (GetTCPContentRules K parentType parentName ruleType
             transactionID c)))))
           = [EngineRun (''l7-'' @ typeToLbctlType K parentType @ ''-'' @ lbctlRType @ ''-dump'')
                [] [parentName],
              EngineRun (''l7-'' @ typeToLbctlType K parentType @ ''-'' @ lbctlRType @ ''-dump'')
                [] [parentName]]
       \<and> filter isCacheEvent (newEvents c (snd (GetTCPContentRules K parentType parentName ruleType
             transactionID (snd (GetTCPContentRules K parentType parentName ruleType
             transactionID c))))) = []
       \<and> Cache (snd (GetTCPContentRules K parentType parentName ruleType
             transactionID (snd (GetTCPContentRules K parentType parentName ruleType
             transactionID c)))) = Cache c
       \<and> (\<forall>raw v e1 e2 e3 e4.
             engineRun K (Engine c)
               (''l7-'' @ typeToLbctlType K parentType @ ''-'' @ lbctlRType @ ''-dump'') []
               [parentName] = (Inr raw, e1)
             \<and> currentVersion K e1 transactionID = (Inr v, e2)
             \<and> engineRun K e2
               (''l7-'' @ typeToLbctlType K parentType @ ''-'' @ lbctlRType @ ''-dump'') []
               [parentName] = (Inr raw, e3)
             \<and> currentVersion K e3 transactionID = (Inr v, e4)
             \<longrightarrow> fst (GetTCPContentRules K parentType parentName ruleType transactionID c)
                   = Inr \<lparr>Version = v, Data = parseTCPContentRules K raw\<rparr>
               \<and> fst (GetTCPContentRules K parentType parentName ruleType transactionID
                        (snd (GetTCPContentRules K parentType parentName ruleType transactionID c)))
                   = Inr \<lparr>Version = v, Data = parseTCPContentRules K raw\<rparr>))"
  using GetBackendSwitchingRules_disabled_twice [OF off]
    GetTCPContentRules_disabled_twice [OF off pt rt]
  by (rule conjI)

theorem disabled_cache_get_invokes_engine_each_call_witness:
  "\<not> enabled (Cache (demoClient False))
   \<and> typeToLbctlType demoCollab ''backend'' \<noteq> []
   \<and> lbctlRTypeOf ''request'' ''backend'' = Inr ''tcpreqcont''
   \<and> filter isEngineRun (newEvents (demoClient False)
        (snd (GetBackendSwitchingRules demoCollab ''web'' ''t1''
          (snd (GetBackendSwitchingRules demoCollab ''web'' ''t1'' (demoClient False))))))
       = [EngineRun ''l7-service-usefarm-dump'' ''t1'' [''web''],
          EngineRun ''l7-service-usefarm-dump'' ''t1'' [''web'']]
   \<and> fst (GetBackendSwitchingRules demoCollab ''web'' ''t1'' (demoClient False))
       = Inr \<lparr>Version = 7, Data = [ruleA, ruleB]\<rparr>
   \<and> fst (GetBackendSwitchingRules demoCollab ''web'' ''t1''
          (snd (GetBackendSwitchingRules demoCollab ''web'' ''t1'' (demoClient False))))
       = Inr \<lparr>Version = 7, Data = [ruleA, ruleB]\<rparr>
   \<and> filter isEngineRun (newEvents (demoClient False)
        (snd (GetTCPContentRules demoCollab ''backend'' ''web'' ''request'' ''t1''
          (snd (GetTCPContentRules demoCollab ''backend'' ''web'' ''request'' ''t1''
                  (demoClient False))))))
       = [EngineRun ''l7-farm-tcpreqcont-dump'' [] [''web''],
          EngineRun ''l7-farm-tcpreqcont-dump'' [] [''web'']]"
proof -
  have off: "\<not> enabled (Cache (demoClient False))"
    by (simp add: demoClient_def)
  have pt: "typeToLbctlType demoCollab ''backend'' \<noteq> []"
    by (simp add: demo_fields)
  have rt: "lbctlRTypeOf ''request'' ''backend'' = Inr ''tcpreqcont''"
    by (simp add: lbctlRTypeOf_def)
  have eng: "Engine (demoClient False) = 0"
    by (simp add: demoClient_def)
  note inst = disabled_cache_get_invokes_engine_each_call [OF off pt rt,
      where frontend = "''web''" and transactionID = "''t1''" and parentName = "''web''"]
  have run1: "engineRun demoCollab (Engine (demoClient False)) ''l7-service-usefarm-dump'' ''t1'' [''web'']
      = (Inr ''1\<newline>name a\<newline>\<newline>2\<newline>name b\<newline>\<newline>'', 1)"
    and ver1: "currentVersion demoCollab 1 ''t1'' = (Inr 7, 1)"
    and run2: "engineRun demoCollab 1 ''l7-service-usefarm-dump'' ''t1'' [''web'']
      = (Inr ''1\<newline>name a\<newline>\<newline>2\<newline>name b\<newline>\<newline>'', 2)"
    and ver2: "currentVersion demoCollab 2 ''t1'' = (Inr 7, 2)"
    by (simp_all add: demo_fields eng)
  from inst run1 ver1 run2 ver2
  have res: "fst (GetBackendSwitchingRules demoCollab ''web'' ''t1'' (demoClient False))
       = Inr \<lparr>Version = 7, Data = parseBackendSwitchingRules demoCollab ''1\<newline>name a\<newline>\<newline>2\<newline>name b\<newline>\<newline>''\<rparr>
     \<and> fst (GetBackendSwitchingRules demoCollab ''web'' ''t1''
          (snd (GetBackendSwitchingRules demoCollab ''web'' ''t1'' (demoClient False))))
       = Inr \<lparr>Version = 7, Data = parseBackendSwitchingRules demoCollab ''1\<newline>name a\<newline>\<newline>2\<newline>name b\<newline>\<newline>''\<rparr>"
    by blast
  show ?thesis
    using off pt rt inst res by (simp add: demo_parse demo_fields)
qed

section \<open>Decimal identifiers\<close>

lemma digitVal_digitChar: "d < 10 \<Longrightarrow> digitVal (digitChar d) = d"
proof -
  assume "d < 10"
  then consider "d = 0" | "d = 1" | "d = 2" | "d = 3" | "d = 4" | "d = 5" | "d = 6" | "d = 7"
    | "d = 8" | "d = 9"
    by atomize_elim arith
  then show ?thesis
    by cases (simp_all add: digitVal_def digitChar_def)
qed

lemma digitChar_not_minus: "digitChar d \<noteq> CHR ''-''"
proof -
  have "d mod 10 < 10" by simp
  then consider "d mod 10 = 0" | "d mod 10 = 1" | "d mod 10 = 2" | "d mod 10 = 3" | "d mod 10 = 4"
    | "d mod 10 = 5" | "d mod 10 = 6" | "d mod 10 = 7" | "d mod 10 = 8" | "d mod 10 = 9"
    by atomize_elim arith
  then show ?thesis
    by cases (simp_all add: digitChar_def)
qed

lemma digitsValue_natDigits: "digitsValue (natDigits n) = n"
proof (induction n rule: natDigits.induct)
  case (1 n)
  show ?case
  proof (cases "n < 10")
    case True
    then show ?thesis
      by (simp add: natDigits.simps [of n] digitsValue_def digitVal_digitChar)
  next
    case False
    with 1 have ih: "digitsValue (natDigits (n div 10)) = n div 10" by simp
    have "digitsValue (natDigits n)
        = digitsValue (natDigits (n div 10)) * 10 + digitVal (digitChar (n mod 10))"
      using False by (simp add: natDigits.simps [of n] digitsValue_def)
    also have "\<dots> = n div 10 * 10 + n mod 10"
      by (simp add: ih digitVal_digitChar)
    finally show ?thesis by simp
  qed
qed

lemma natDigits_inj: "natDigits m = natDigits n \<Longrightarrow> m = n"
  by (metis digitsValue_natDigits)

lemma natDigits_hd: "\<exists>d ds. natDigits n = digitChar d # ds"
proof (induction n rule: natDigits.induct)
  case (1 n)
  show ?case
  proof (cases "n < 10")
    case True
    then have "natDigits n = digitChar n # []" by (simp add: natDigits.simps [of n])
    then show ?thesis by blast
  next
    case False
    with 1 obtain d ds where "natDigits (n div 10) = digitChar d # ds" by blast
    with False have "natDigits n = digitChar d # (ds @ [digitChar (n mod 10)])"
      by (simp add: natDigits.simps [of n])
    then show ?thesis by blast
  qed
qed

lemma FormatInt_inj: "FormatInt a = FormatInt b \<Longrightarrow> a = b"
proof -
  assume eq: "FormatInt a = FormatInt b"
  have sign: "sint a < 0 \<longleftrightarrow> sint b < 0"
  proof (rule ccontr)
    assume "\<not> ?thesis"
    then consider "sint a < 0" "\<not> sint b < 0" | "\<not> sint a < 0" "sint b < 0" by blast
    then show False
    proof cases
      case 1
      obtain d ds where "natDigits (nat (sint b)) = digitChar d # ds"
        using natDigits_hd by blast
      with 1 eq show False
        by (simp add: FormatInt_def) (metis digitChar_not_minus)
    next
      case 2
      obtain d ds where "natDigits (nat (sint a)) = digitChar d # ds"
        using natDigits_hd by blast
      with 2 eq show False
        by (simp add: FormatInt_def) (metis digitChar_not_minus)
    qed
  qed
  have "sint a = sint b"
  proof (cases "sint a < 0")
    case True
    with sign eq have "natDigits (nat (- sint a)) = natDigits (nat (- sint b))"
      by (simp add: FormatInt_def)
    then have "nat (- sint a) = nat (- sint b)" by (rule natDigits_inj)
    with True sign show ?thesis by simp
  next
    case False
    with sign eq have "natDigits (nat (sint a)) = natDigits (nat (sint b))"
      by (simp add: FormatInt_def)
    then have "nat (sint a) = nat (sint b)" by (rule natDigits_inj)
    with False sign show ?thesis by simp
  qed
  then show "a = b" by (simp add: signed_word_eqI)
qed

section \<open>Editing: the pre-image and the identifier\<close>

lemma edit_bsr_refetch:
  assumes val: "(if UseValidation c then Validate K data else None) = None"
    and g: "GetBackendSwitchingRule K id' frontend transactionID c = (r1, c1)"
    and e: "EditBackendSwitchingRule K id' frontend data transactionID version c = (r, c')"
  shows "Trace c' = Trace c1 @ newEvents c1 c'"
    and "r1 = Inl err \<Longrightarrow> r = Some err \<and> c' = c1"
    and "r1 = Inr ondisk \<Longrightarrow> tokenError transactionID version = None
         \<Longrightarrow> take 1 (newEvents c1 c')
             = [EngineMutate (EngineEdit (FormatInt (ID data)) ''usefarm'' frontend ''service''
                  data ondisk transactionID version)]"
  using e val
  by (auto simp: EditBackendSwitchingRule_def g editObject_def invokeMutate_def
        invalidateBackendSwitchingRules_def cache_calls newEvents_def split: op_splits)

lemma edit_tcp_refetch:
  assumes val: "(if UseValidation c then Validate K data else None) = None"
    and pt: "typeToLbctlType K parentType \<noteq> []"
    and rt: "lbctlRTypeOf ruleType parentType = Inr lbctlRType"
    and g: "GetTCPContentRule K id' parentType parentName ruleType transactionID c = (r1, c1)"
    and e: "EditTCPContentRule K id' parentType parentName ruleType data transactionID version c = (r, c')"
  shows "Trace c' = Trace c1 @ newEvents c1 c'"
    and "r1 = Inl err \<Longrightarrow> r = Some err \<and> c' = c1"
    and "r1 = Inr ondisk \<Longrightarrow> tokenError transactionID version = None
         \<Longrightarrow> take 1 (newEvents c1 c')
             = [EngineMutate (EngineEdit (FormatInt (ID data)) lbctlRType parentName
                  (typeToLbctlType K parentType) data ondisk transactionID version)]"
  using e val pt rt
  by (auto simp: EditTCPContentRule_def g editObject_def invokeMutate_def
        invalidateTCPContentRules_def cache_calls newEvents_def Let_def split: op_splits)

lemma no_mutate_editNamed: "filter isEngineMutate evs = [] \<Longrightarrow> list_all (editNamed n) evs"
proof (induction evs)
  case Nil
  then show ?case by simp
next
  case (Cons ev evs)
  then show ?case by (cases ev) (simp_all split: if_splits)
qed

lemma edit_bsr_names_payload_id:
  assumes "EditBackendSwitchingRule K id' frontend data transactionID version c = (r, c')"
  shows "list_all (editNamed (FormatInt (ID data))) (newEvents c c')"
proof -
  obtain r1 c1 where g: "GetBackendSwitchingRule K id' frontend transactionID c = (r1, c1)"
    by force
  from GetBackendSwitchingRule_trace [OF g]
  obtain evs where tr: "Trace c1 = Trace c @ evs" "filter isEngineMutate evs = []"
    by blast
  from tr(2) have "list_all (editNamed (FormatInt (ID data))) evs"
    by (rule no_mutate_editNamed)
  with assms tr(1) show ?thesis
    by (auto simp: EditBackendSwitchingRule_def g editObject_def invokeMutate_def
          invalidateBackendSwitchingRules_def cache_calls newEvents_def split: op_splits)
qed

lemma edit_tcp_names_payload_id:
  assumes "EditTCPContentRule K id' parentType parentName ruleType data transactionID version c = (r, c')"
  shows "list_all (editNamed (FormatInt (ID data))) (newEvents c c')"
proof -
  obtain r1 c1 where g: "GetTCPContentRule K id' parentType parentName ruleType transactionID c = (r1, c1)"
    by force
  from GetTCPContentRule_trace [OF g]
  obtain evs where tr: "Trace c1 = Trace c @ evs" "filter isEngineMutate evs = []"
    by blast
  from tr(2) have "list_all (editNamed (FormatInt (ID data))) evs"
    by (rule no_mutate_editNamed)
  with assms tr(1) show ?thesis
    by (auto simp: EditTCPContentRule_def g editObject_def invokeMutate_def
          invalidateTCPContentRules_def cache_calls newEvents_def Let_def split: op_splits)
qed

section \<open>Creating: the frame of the cache\<close>

lemma create_frame:
  assumes "CreateBackendSwitchingRule K frontend data transactionID version c = (r, c')"
  shows "filter isCachePopulate (newEvents c c') = []"
    and "TcpContentRequestRules (Cache c') = TcpContentRequestRules (Cache c)"
    and "TcpContentResponseRules (Cache c') = TcpContentResponseRules (Cache c)"
    and "Versions (Cache c') = Versions (Cache c)"
    and "enabled (Cache c') = enabled (Cache c)"
    and "k \<noteq> (frontend, transactionID) \<Longrightarrow>
           collections (BackendSwitchingRules (Cache c')) k
             = collections (BackendSwitchingRules (Cache c)) k
           \<and> singles (BackendSwitchingRules (Cache c')) (i, k)
             = singles (BackendSwitchingRules (Cache c)) (i, k)"
  using assms
  by (auto simp: CreateBackendSwitchingRule_def createObject_def invokeMutate_def
        invalidateBackendSwitchingRules_def cache_calls newEvents_def split: op_splits)

lemma create_tcp_frame:
  assumes "CreateTCPContentRule K parentType parentName ruleType data transactionID version c = (r, c')"
  shows "filter isCachePopulate (newEvents c c') = []"
    and "BackendSwitchingRules (Cache c') = BackendSwitchingRules (Cache c)"
    and "Versions (Cache c') = Versions (Cache c)"
    and "enabled (Cache c') = enabled (Cache c)"
    and "ruleType \<noteq> ''request'' \<Longrightarrow> TcpContentRequestRules (Cache c') = TcpContentRequestRules (Cache c)"
    and "ruleType \<noteq> ''response'' \<Longrightarrow> TcpContentResponseRules (Cache c') = TcpContentResponseRules (Cache c)"
    and "k3 \<noteq> (parentName, parentType, transactionID) \<Longrightarrow>
           collections (TcpContentRequestRules (Cache c')) k3
             = collections (TcpContentRequestRules (Cache c)) k3
           \<and> singles (TcpContentRequestRules (Cache c')) (i, k3)
             = singles (TcpContentRequestRules (Cache c)) (i, k3)"
    and "k \<noteq> (parentName, transactionID) \<Longrightarrow>
           collections (TcpContentResponseRules (Cache c')) k
             = collections (TcpContentResponseRules (Cache c)) k
           \<and> singles (TcpContentResponseRules (Cache c')) (i, k)
             = singles (TcpContentResponseRules (Cache c)) (i, k)"
  using assms
  by (auto simp: CreateTCPContentRule_def createObject_def invokeMutate_def
        invalidateTCPContentRules_def lbctlRTypeOf_def cache_calls newEvents_def Let_def split: op_splits)

section \<open>The transaction handed to the engine by the Get operations\<close>

lemma get_collection_engine_transaction:
  "GetTCPContentRules K parentType parentName ruleType transactionID c = (r, c')
     \<Longrightarrow> list_all (engineRunWith []) (newEvents c c')"
  "GetBackendSwitchingRules K frontend transactionID c = (r', c')
     \<Longrightarrow> list_all (engineRunWith transactionID) (newEvents c c')"
  by (auto simp: GetTCPContentRules_def GetBackendSwitchingRules_def cache_calls executeLBCTL_def
        GetVersion_def Let_def newEvents_def split: op_splits)

lemma get_one_engine_transaction:
  "GetTCPContentRule K id' parentType parentName ruleType transactionID c = (r, c')
     \<Longrightarrow> list_all (engineRunWith []) (newEvents c c')"
  "GetBackendSwitchingRule K id' frontend transactionID c = (r', c')
     \<Longrightarrow> list_all (engineRunWith transactionID) (newEvents c c')"
  by (auto simp: GetTCPContentRule_def GetBackendSwitchingRule_def cache_calls executeLBCTL_def
        GetVersion_def Let_def newEvents_def split: op_splits)

lemma get_tcp_collection_miss:
  assumes "rcGet (enabled (Cache c)) (TcpContentRequestRules (Cache c))
             (parentName, parentType, transactionID) = None"
    and "rcGet (enabled (Cache c)) (TcpContentResponseRules (Cache c))
             (parentName, transactionID) = None"
    and "typeToLbctlType K parentType \<noteq> []"
    and "lbctlRTypeOf ruleType parentType = Inr lbctlRType"
    and "GetTCPContentRules K parentType parentName ruleType transactionID c = (r, c')"
  shows "filter isEngineRun (newEvents c c')
           = [EngineRun (''l7-'' @ typeToLbctlType K parentType @ ''-'' @ lbctlRType @ ''-dump'')
                [] [parentName]]"
  using assms
  by (auto simp: GetTCPContentRules_def cache_calls executeLBCTL_def GetVersion_def Let_def
        newEvents_def split: op_splits)

lemma get_tcp_one_miss:
  assumes "rcGetOne (enabled (Cache c)) (TcpContentRequestRules (Cache c)) id'
             (parentName, parentType, transactionID) = None"
    and "rcGetOne (enabled (Cache c)) (TcpContentResponseRules (Cache c)) id'
             (parentName, transactionID) = None"
    and "typeToLbctlType K parentType \<noteq> []"
    and "lbctlRTypeOf ruleType parentType = Inr lbctlRType"
    and "GetTCPContentRule K id' parentType parentName ruleType transactionID c = (r, c')"
  shows "filter isEngineRun (newEvents c c')
           = [EngineRun (''l7-'' @ typeToLbctlType K parentType @ ''-'' @ lbctlRType @ ''-show'')
                [] [parentName, FormatInt id']]"
  using assms
  by (auto simp: GetTCPContentRule_def cache_calls executeLBCTL_def GetVersion_def Let_def
        newEvents_def split: op_splits)

lemma get_bsr_collection_miss:
  assumes "rcGet (enabled (Cache c)) (BackendSwitchingRules (Cache c))
             (frontend, transactionID) = None"
    and "GetBackendSwitchingRules K frontend transactionID c = (r, c')"
  shows "filter isEngineRun (newEvents c c')
           = [EngineRun ''l7-service-usefarm-dump'' transactionID [frontend]]"
  using assms
  by (auto simp: GetBackendSwitchingRules_def cache_calls executeLBCTL_def GetVersion_def Let_def
        newEvents_def split: op_splits)

lemma get_bsr_one_miss:
  assumes "rcGetOne (enabled (Cache c)) (BackendSwitchingRules (Cache c)) id'
             (frontend, transactionID) = None"
    and "GetBackendSwitchingRule K id' frontend transactionID c = (r, c')"
  shows "filter isEngineRun (newEvents c c')
           = [EngineRun ''l7-service-usefarm-show'' transactionID [frontend, FormatInt id']]"
  using assms
  by (auto simp: GetBackendSwitchingRule_def cache_calls executeLBCTL_def GetVersion_def Let_def
        newEvents_def split: op_splits)

section \<open>The claims about Edit, Create and the Get operations\<close>

text \<open>
  C7. Every Edit operation, once the payload validation (and, for TCP content rules, the
  parent type and rule type) has passed, first fetches the pre-image with the
  corresponding Get-one: its trace starts with the trace of that Get-one. If the Get-one
  fails, the Edit returns that error and leaves the client as the Get-one left it, with
  no engine edit and no invalidation. If it succeeds, the body it returned (the version
  and the old entity) and the new payload are what \<open>editObject\<close> hands to the engine: the
  engine's edit is the next event, as soon as the concurrency token is in order.
\<close>

theorem edit_refetches_preimage_first:
  assumes val: "(if UseValidation c then Validate K data else None) = None"
    and pt: "typeToLbctlType K parentType \<noteq> []"
    and rt: "lbctlRTypeOf ruleType parentType = Inr lbctlRType"
  shows
    "Trace (snd (EditTCPContentRule K id' parentType parentName ruleType data transactionID version c))
       = Trace (snd (GetTCPContentRule K id' parentType parentName ruleType transactionID c))
         @ newEvents (snd (GetTCPContentRule K id' parentType parentName ruleType transactionID c))
             (snd (EditTCPContentRule K id' parentType parentName ruleType data transactionID
                     version c))
     \<and> (\<forall>err. fst (GetTCPContentRule K id' parentType parentName ruleType transactionID c) = Inl err
          \<longrightarrow> EditTCPContentRule K id' parentType parentName ruleType data transactionID version c
                = (Some err, snd (GetTCPContentRule K id' parentType parentName ruleType
                                    transactionID c))
              \<and> filter isEngineMutate (newEvents c (snd (EditTCPContentRule K id' parentType
                    parentName ruleType data transactionID version c))) = []
              \<and> filter isInvalidate (newEvents c (snd (EditTCPContentRule K id' parentType
                    parentName ruleType data transactionID version c))) = [])
     \<and> (\<forall>ondisk. fst (GetTCPContentRule K id' parentType parentName ruleType transactionID c)
                     = Inr ondisk
                   \<and> tokenError transactionID version = None
          \<longrightarrow> take 1 (newEvents
                  (snd (GetTCPContentRule K id' parentType parentName ruleType transactionID c))
                  (snd (EditTCPContentRule K id' parentType parentName ruleType data
                          transactionID version c)))
                = [EngineMutate (EngineEdit (FormatInt (ID data)) lbctlRType parentName
                     (typeToLbctlType K parentType) data ondisk transactionID version)])
     \<and> Trace (snd (EditBackendSwitchingRule K id' frontend data transactionID version c))
       = Trace (snd (GetBackendSwitchingRule K id' frontend transactionID c))
         @ newEvents (snd (GetBackendSwitchingRule K id' frontend transactionID c))
             (snd (EditBackendSwitchingRule K id' frontend data transactionID version c))
     \<and> (\<forall>err. fst (GetBackendSwitchingRule K id' frontend transactionID c) = Inl err
          \<longrightarrow> EditBackendSwitchingRule K id' frontend data transactionID version c
                = (Some err, snd (GetBackendSwitchingRule K id' frontend transactionID c))
              \<and> filter isEngineMutate (newEvents c (snd (EditBackendSwitchingRule K id' frontend
                    data transactionID version c))) = []
              \<and> filter isInvalidate (newEvents c (snd (EditBackendSwitchingRule K id' frontend
                    data transactionID version c))) = [])
     \<and> (\<forall>ondisk. fst (GetBackendSwitchingRule K id' frontend transactionID c) = Inr ondisk
                   \<and> tokenError transactionID version = None
          \<longrightarrow> take 1 (newEvents
                  (snd (GetBackendSwitchingRule K id' frontend transactionID c))
                  (snd (EditBackendSwitchingRule K id' frontend data transactionID version c)))
                = [EngineMutate (EngineEdit (FormatInt (ID data)) ''usefarm'' frontend
                     ''service'' data ondisk transactionID version)])"
proof -
  obtain r1 c1 where g: "GetTCPContentRule K id' parentType parentName ruleType transactionID c = (r1, c1)"
    by force
  obtain r c' where e: "EditTCPContentRule K id' parentType parentName ruleType data transactionID version c = (r, c')"
    by force
  note tcp = edit_tcp_refetch [OF val pt rt g e]
  from GetTCPContentRule_trace [OF g]
  have quiet: "Trace c1 = Trace c @ newEvents c c1" "filter isEngineMutate (newEvents c c1) = []"
    "filter isInvalidate (newEvents c c1) = []"
    by simp_all
  obtain r1b c1b where gb: "GetBackendSwitchingRule K id' frontend transactionID c = (r1b, c1b)"
    by force
  obtain rb cb' where eb: "EditBackendSwitchingRule K id' frontend data transactionID version c = (rb, cb')"
    by force
  note bsr = edit_bsr_refetch [OF val gb eb]
  from GetBackendSwitchingRule_trace [OF gb]
  have quietb: "Trace c1b = Trace c @ newEvents c c1b" "filter isEngineMutate (newEvents c c1b) = []"
    "filter isInvalidate (newEvents c c1b) = []"
    by simp_all
  have A: "\<forall>err. r1 = Inl err \<longrightarrow> (r, c') = (Some err, c1)
      \<and> filter isEngineMutate (newEvents c c') = [] \<and> filter isInvalidate (newEvents c c') = []"
    using tcp(2) quiet by auto
  have B: "\<forall>err. r1b = Inl err \<longrightarrow> (rb, cb') = (Some err, c1b)
      \<and> filter isEngineMutate (newEvents c cb') = [] \<and> filter isInvalidate (newEvents c cb') = []"
    using bsr(2) quietb by auto
  show ?thesis
    using tcp(1,3) bsr(1,3) A B quiet(2,3) quietb(2,3) by (simp add: g e gb eb)
qed

theorem edit_refetches_preimage_first_witness:
  "(if UseValidation (demoClient True) then Validate demoCollab ruleB else None) = None
   \<and> typeToLbctlType demoCollab ''backend'' \<noteq> []
   \<and> lbctlRTypeOf ''request'' ''backend'' = Inr ''tcpreqcont''
   \<and> fst (GetBackendSwitchingRule demoCollab 1 ''web'' ''t1'' (demoClient True))
       = Inr \<lparr>Version = 7, Data = ruleA\<rparr>
   \<and> tokenError ''t1'' 0 = None
   \<and> take 1 (newEvents (snd (GetBackendSwitchingRule demoCollab 1 ''web'' ''t1'' (demoClient True)))
        (snd (EditBackendSwitchingRule demoCollab 1 ''web'' ruleB ''t1'' 0 (demoClient True))))
       = [EngineMutate (EngineEdit (FormatInt (ID ruleB)) ''usefarm'' ''web'' ''service'' ruleB
            \<lparr>Version = 7, Data = ruleA\<rparr> ''t1'' 0)]
   \<and> fst (GetTCPContentRule downCollab 1 ''backend'' ''web'' ''request'' ''t1'' (demoClient True))
       = Inl engineDown
   \<and> EditTCPContentRule downCollab 1 ''backend'' ''web'' ''request'' ruleB ''t1'' 0 (demoClient True)
       = (Some engineDown,
          snd (GetTCPContentRule downCollab 1 ''backend'' ''web'' ''request'' ''t1'' (demoClient True)))"
proof -
  have val: "(if UseValidation (demoClient True) then Validate demoCollab ruleB else None) = None"
    and vald: "(if UseValidation (demoClient True) then Validate downCollab ruleB else None) = None"
    by (simp_all add: demo_fields down_fields)
  have pt: "typeToLbctlType demoCollab ''backend'' \<noteq> []"
    and ptd: "typeToLbctlType downCollab ''backend'' \<noteq> []"
    by (simp_all add: demo_fields down_fields)
  have rt: "lbctlRTypeOf ''request'' ''backend'' = Inr ''tcpreqcont''"
    by (simp add: lbctlRTypeOf_def)
  have got: "fst (GetBackendSwitchingRule demoCollab 1 ''web'' ''t1'' (demoClient True))
       = Inr \<lparr>Version = 7, Data = ruleA\<rparr>"
    by (simp add: demo_eval)
  have tok: "tokenError ''t1'' 0 = None"
    by (simp add: tokenError_def)
  have down: "fst (GetTCPContentRule downCollab 1 ''backend'' ''web'' ''request'' ''t1'' (demoClient True))
       = Inl engineDown"
    by (simp add: demo_eval demo_fields)
  note ok = edit_refetches_preimage_first [OF val pt rt, where id' = 1 and frontend = "''web''"
      and transactionID = "''t1''" and version = 0 and parentName = "''web''"]
  note ko = edit_refetches_preimage_first [OF vald ptd rt, where id' = 1 and frontend = "''web''"
      and transactionID = "''t1''" and version = 0 and parentName = "''web''"]
  from ok got tok
  have edit: "take 1 (newEvents (snd (GetBackendSwitchingRule demoCollab 1 ''web'' ''t1'' (demoClient True)))
        (snd (EditBackendSwitchingRule demoCollab 1 ''web'' ruleB ''t1'' 0 (demoClient True))))
       = [EngineMutate (EngineEdit (FormatInt (ID ruleB)) ''usefarm'' ''web'' ''service'' ruleB
            \<lparr>Version = 7, Data = ruleA\<rparr> ''t1'' 0)]"
    by blast
  from ko down
  have fail: "EditTCPContentRule downCollab 1 ''backend'' ''web'' ''request'' ruleB ''t1'' 0 (demoClient True)
       = (Some engineDown,
          snd (GetTCPContentRule downCollab 1 ''backend'' ''web'' ''request'' ''t1'' (demoClient True)))"
    by blast
  show ?thesis
    using val pt rt got tok edit down fail by simp
qed

text \<open>
  C8. A Create operation never populates the cache: whatever its outcome, it makes no
  \<open>Set\<close> or \<open>SetAll\<close> call, it leaves the other caches and the versions as they
  were, and in the cache of its own entity type every entry, collection or single item,
  outside the invalidated scope is unchanged.
\<close>

theorem create_never_populates_cache:
  "filter isCachePopulate (newEvents c (snd (CreateBackendSwitchingRule K frontend data
       transactionID version c))) = []
   \<and> TcpContentRequestRules (Cache (snd (CreateBackendSwitchingRule K frontend data
       transactionID version c))) = TcpContentRequestRules (Cache c)
   \<and> TcpContentResponseRules (Cache (snd (CreateBackendSwitchingRule K frontend data
       transactionID version c))) = TcpContentResponseRules (Cache c)
   \<and> Versions (Cache (snd (CreateBackendSwitchingRule K frontend data
       transactionID version c))) = Versions (Cache c)
   \<and> (\<forall>k i. k \<noteq> (frontend, transactionID) \<longrightarrow>
          collections (BackendSwitchingRules (Cache (snd (CreateBackendSwitchingRule K frontend
             data transactionID version c)))) k
            = collections (BackendSwitchingRules (Cache c)) k
          \<and> singles (BackendSwitchingRules (Cache (snd (CreateBackendSwitchingRule K frontend
             data transactionID version c)))) (i, k)
            = singles (BackendSwitchingRules (Cache c)) (i, k))
   \<and> filter isCachePopulate (newEvents c (snd (CreateTCPContentRule K parentType parentName ruleType
       data transactionID version c))) = []
   \<and> BackendSwitchingRules (Cache (snd (CreateTCPContentRule K parentType parentName ruleType
       data transactionID version c))) = BackendSwitchingRules (Cache c)
   \<and> Versions (Cache (snd (CreateTCPContentRule K parentType parentName ruleType
       data transactionID version c))) = Versions (Cache c)
   \<and> (ruleType \<noteq> ''request'' \<longrightarrow>
        TcpContentRequestRules (Cache (snd (CreateTCPContentRule K parentType parentName ruleType
          data transactionID version c))) = TcpContentRequestRules (Cache c))
   \<and> (ruleType \<noteq> ''response'' \<longrightarrow>
        TcpContentResponseRules (Cache (snd (CreateTCPContentRule K parentType parentName ruleType
          data transactionID version c))) = TcpContentResponseRules (Cache c))
   \<and> (\<forall>k i. k \<noteq> (parentName, parentType, transactionID) \<longrightarrow>
          collections (TcpContentRequestRules (Cache (snd (CreateTCPContentRule K parentType
             parentName ruleType data transactionID version c)))) k
            = collections (TcpContentRequestRules (Cache c)) k
          \<and> singles (TcpContentRequestRules (Cache (snd (CreateTCPContentRule K parentType
             parentName ruleType data transactionID version c)))) (i, k)
            = singles (TcpContentRequestRules (Cache c)) (i, k))
   \<and> (\<forall>k i. k \<noteq> (parentName, transactionID) \<longrightarrow>
          collections (TcpContentResponseRules (Cache (snd (CreateTCPContentRule K parentType
             parentName ruleType data transactionID version c)))) k
            = collections (TcpContentResponseRules (Cache c)) k
          \<and> singles (TcpContentResponseRules (Cache (snd (CreateTCPContentRule K parentType
             parentName ruleType data transactionID version c)))) (i, k)
            = singles (TcpContentResponseRules (Cache c)) (i, k))"
proof -
  obtain r c' where e: "CreateTCPContentRule K parentType parentName ruleType data transactionID version c = (r, c')"
    by force
  obtain rb cb' where eb: "CreateBackendSwitchingRule K frontend data transactionID version c = (rb, cb')"
    by force
  note tcp = create_tcp_frame [OF e]
  note bsr = create_frame [OF eb]
  show ?thesis
    using bsr(1,2,3,4,6) tcp(1,2,3,5,6,7,8) by (simp add: e eb)
qed

theorem create_never_populates_cache_witness:
  "(''api'', ''t1'') \<noteq> (''web'', ''t1'')
   \<and> fst (CreateBackendSwitchingRule demoCollab ''web'' ruleA ''t1'' 0
        (snd (GetBackendSwitchingRules demoCollab ''api'' ''t1'' (demoClient True)))) = None
   \<and> collections (BackendSwitchingRules (Cache (snd
        (CreateBackendSwitchingRule demoCollab ''web'' ruleA ''t1'' 0
          (snd (GetBackendSwitchingRules demoCollab ''api'' ''t1'' (demoClient True)))))))
        (''api'', ''t1'') = Some [ruleA, ruleB]
   \<and> filter isCachePopulate (newEvents
        (snd (GetBackendSwitchingRules demoCollab ''api'' ''t1'' (demoClient True)))
        (snd (CreateBackendSwitchingRule demoCollab ''web'' ruleA ''t1'' 0
          (snd (GetBackendSwitchingRules demoCollab ''api'' ''t1'' (demoClient True)))))) = []"
proof -
  have other: "(''api'', ''t1'') \<noteq> (''web'', ''t1'')"
    by simp
  have before: "collections (BackendSwitchingRules (Cache
        (snd (GetBackendSwitchingRules demoCollab ''api'' ''t1'' (demoClient True)))))
        (''api'', ''t1'') = Some [ruleA, ruleB]"
    by (simp add: demo_eval)
  have created: "fst (CreateBackendSwitchingRule demoCollab ''web'' ruleA ''t1'' 0
        (snd (GetBackendSwitchingRules demoCollab ''api'' ''t1'' (demoClient True)))) = None"
    by (simp add: demo_eval)
  note frame = create_never_populates_cache [where K = demoCollab and frontend = "''web''"
      and data = ruleA and transactionID = "''t1''" and version = 0
      and c = "snd (GetBackendSwitchingRules demoCollab ''api'' ''t1'' (demoClient True))"]
  from frame [THEN conjunct2, THEN conjunct2, THEN conjunct2, THEN conjunct2, THEN conjunct1]
  have "(''api'', ''t1'') \<noteq> (''web'', ''t1'') \<longrightarrow>
      collections (BackendSwitchingRules (Cache (snd
        (CreateBackendSwitchingRule demoCollab ''web'' ruleA ''t1'' 0
          (snd (GetBackendSwitchingRules demoCollab ''api'' ''t1'' (demoClient True)))))))
        (''api'', ''t1'')
      = collections (BackendSwitchingRules (Cache
        (snd (GetBackendSwitchingRules demoCollab ''api'' ''t1'' (demoClient True)))))
        (''api'', ''t1'')
      \<and> singles (BackendSwitchingRules (Cache (snd
        (CreateBackendSwitchingRule demoCollab ''web'' ruleA ''t1'' 0
          (snd (GetBackendSwitchingRules demoCollab ''api'' ''t1'' (demoClient True)))))))
        (1, ''api'', ''t1'')
      = singles (BackendSwitchingRules (Cache
        (snd (GetBackendSwitchingRules demoCollab ''api'' ''t1'' (demoClient True)))))
        (1, ''api'', ''t1'')"
    by (rule allE [where x = "(''api'', ''t1'')"], elim allE [where x = 1])
  with other
  have kept: "collections (BackendSwitchingRules (Cache (snd
        (CreateBackendSwitchingRule demoCollab ''web'' ruleA ''t1'' 0
          (snd (GetBackendSwitchingRules demoCollab ''api'' ''t1'' (demoClient True)))))))
        (''api'', ''t1'')
      = collections (BackendSwitchingRules (Cache
        (snd (GetBackendSwitchingRules demoCollab ''api'' ''t1'' (demoClient True)))))
        (''api'', ''t1'')"
    by (elim impE conjE)
  note quiet = frame [THEN conjunct1]
  show ?thesis
    using other created kept before quiet by simp
qed

text \<open>
  C9. \<open>GetTCPContentRules\<close> and \<open>GetTCPContentRule\<close> invoke the engine with the empty
  transaction, whatever the \<open>transactionID\<close> argument is, while
  \<open>GetBackendSwitchingRules\<close> and \<open>GetBackendSwitchingRule\<close> hand it the caller's
  \<open>transactionID\<close>: every engine invocation of a call carries that transaction, and on a
  cache miss (for TCP content rules, with a parent type and rule type that pass
  validation) there is exactly one engine invocation, the dump or show shown.
\<close>

theorem get_engine_transaction:
  "list_all (engineRunWith [])
     (newEvents c (snd (GetTCPContentRules K parentType parentName ruleType transactionID c)))
   \<and> list_all (engineRunWith [])
     (newEvents c (snd (GetTCPContentRule K id' parentType parentName ruleType transactionID c)))
   \<and> list_all (engineRunWith transactionID)
     (newEvents c (snd (GetBackendSwitchingRules K frontend transactionID c)))
   \<and> list_all (engineRunWith transactionID)
     (newEvents c (snd (GetBackendSwitchingRule K id' frontend transactionID c)))
   \<and> (rcGet (enabled (Cache c)) (TcpContentRequestRules (Cache c))
         (parentName, parentType, transactionID) = None
       \<and> rcGet (enabled (Cache c)) (TcpContentResponseRules (Cache c))
         (parentName, transactionID) = None
       \<and> typeToLbctlType K parentType \<noteq> []
       \<and> lbctlRTypeOf ruleType parentType = Inr lbctlRType
       \<longrightarrow> filter isEngineRun
             (newEvents c (snd (GetTCPContentRules K parentType parentName ruleType transactionID c)))
           = [EngineRun (''l7-'' @ typeToLbctlType K parentType @ ''-'' @ lbctlRType @ ''-dump'')
                [] [parentName]])
   \<and> (rcGetOne (enabled (Cache c)) (TcpContentRequestRules (Cache c)) id'
         (parentName, parentType, transactionID) = None
       \<and> rcGetOne (enabled (Cache c)) (TcpContentResponseRules (Cache c)) id'
         (parentName, transactionID) = None
       \<and> typeToLbctlType K parentType \<noteq> []
       \<and> lbctlRTypeOf ruleType parentType = Inr lbctlRType
       \<longrightarrow> filter isEngineRun
             (newEvents c (snd (GetTCPContentRule K id' parentType parentName ruleType
                transactionID c)))
           = [EngineRun (''l7-'' @ typeToLbctlType K parentType @ ''-'' @ lbctlRType @ ''-show'')
                [] [parentName, FormatInt id']])
   \<and> (rcGet (enabled (Cache c)) (BackendSwitchingRules (Cache c)) (frontend, transactionID) = None
       \<longrightarrow> filter isEngineRun
             (newEvents c (snd (GetBackendSwitchingRules K frontend transactionID c)))
           = [EngineRun ''l7-service-usefarm-dump'' transactionID [frontend]])
   \<and> (rcGetOne (enabled (Cache c)) (BackendSwitchingRules (Cache c)) id'
         (frontend, transactionID) = None
       \<longrightarrow> filter isEngineRun
             (newEvents c (snd (GetBackendSwitchingRule K id' frontend transactionID c)))
           = [EngineRun ''l7-service-usefarm-show'' transactionID [frontend, FormatInt id']])"
proof -
  have m1: "filter isEngineRun
             (newEvents c (snd (GetTCPContentRules K parentType parentName ruleType transactionID c)))
           = [EngineRun (''l7-'' @ typeToLbctlType K parentType @ ''-'' @ lbctlRType @ ''-dump'')
                [] [parentName]]"
    if "rcGet (enabled (Cache c)) (TcpContentRequestRules (Cache c))
         (parentName, parentType, transactionID) = None"
      and "rcGet (enabled (Cache c)) (TcpContentResponseRules (Cache c))
         (parentName, transactionID) = None"
      and "typeToLbctlType K parentType \<noteq> []"
      and "lbctlRTypeOf ruleType parentType = Inr lbctlRType"
    using get_tcp_collection_miss [OF that surjective_pairing] .
  have m2: "filter isEngineRun
             (newEvents c (snd (GetTCPContentRule K id' parentType parentName ruleType
                transactionID c)))
           = [EngineRun (''l7-'' @ typeToLbctlType K parentType @ ''-'' @ lbctlRType @ ''-show'')
                [] [parentName, FormatInt id']]"
    if "rcGetOne (enabled (Cache c)) (TcpContentRequestRules (Cache c)) id'
         (parentName, parentType, transactionID) = None"
      and "rcGetOne (enabled (Cache c)) (TcpContentResponseRules (Cache c)) id'
         (parentName, transactionID) = None"
      and "typeToLbctlType K parentType \<noteq> []"
      and "lbctlRTypeOf ruleType parentType = Inr lbctlRType"
    using get_tcp_one_miss [OF that surjective_pairing] .
  have m3: "filter isEngineRun
             (newEvents c (snd (GetBackendSwitchingRules K frontend transactionID c)))
           = [EngineRun ''l7-service-usefarm-dump'' transactionID [frontend]]"
    if "rcGet (enabled (Cache c)) (BackendSwitchingRules (Cache c)) (frontend, transactionID) = None"
    using get_bsr_collection_miss [OF that surjective_pairing] .
  have m4: "filter isEngineRun
             (newEvents c (snd (GetBackendSwitchingRule K id' frontend transactionID c)))
           = [EngineRun ''l7-service-usefarm-show'' transactionID [frontend, FormatInt id']]"
    if "rcGetOne (enabled (Cache c)) (BackendSwitchingRules (Cache c)) id'
         (frontend, transactionID) = None"
    using get_bsr_one_miss [OF that surjective_pairing] .
  show ?thesis
    by (intro conjI impI
          get_collection_engine_transaction(1) [OF surjective_pairing]
          get_one_engine_transaction(1) [OF surjective_pairing]
          get_collection_engine_transaction(2) [OF surjective_pairing]
          get_one_engine_transaction(2) [OF surjective_pairing])
       (simp_all add: m1 m2 m3 m4)
qed

theorem get_engine_transaction_witness:
  "rcGet (enabled (Cache (demoClient True))) (TcpContentRequestRules (Cache (demoClient True)))
      (''web'', ''backend'', ''t1'') = None
   \<and> rcGet (enabled (Cache (demoClient True))) (TcpContentResponseRules (Cache (demoClient True)))
      (''web'', ''t1'') = None
   \<and> typeToLbctlType demoCollab ''backend'' \<noteq> []
   \<and> lbctlRTypeOf ''request'' ''backend'' = Inr ''tcpreqcont''
   \<and> filter isEngineRun (newEvents (demoClient True)
        (snd (GetTCPContentRules demoCollab ''backend'' ''web'' ''request'' ''t1'' (demoClient True))))
       = [EngineRun ''l7-farm-tcpreqcont-dump'' [] [''web'']]
   \<and> rcGet (enabled (Cache (demoClient True))) (BackendSwitchingRules (Cache (demoClient True)))
      (''web'', ''t1'') = None
   \<and> filter isEngineRun (newEvents (demoClient True)
        (snd (GetBackendSwitchingRules demoCollab ''web'' ''t1'' (demoClient True))))
       = [EngineRun ''l7-service-usefarm-dump'' ''t1'' [''web'']]"
proof -
  have miss: "rcGet (enabled (Cache (demoClient True))) (TcpContentRequestRules (Cache (demoClient True)))
      (''web'', ''backend'', ''t1'') = None"
    "rcGet (enabled (Cache (demoClient True))) (TcpContentResponseRules (Cache (demoClient True)))
      (''web'', ''t1'') = None"
    "rcGet (enabled (Cache (demoClient True))) (BackendSwitchingRules (Cache (demoClient True)))
      (''web'', ''t1'') = None"
    by (simp_all add: rcGet_def demoClient_def emptyRuleCache_def)
  have pt: "typeToLbctlType demoCollab ''backend'' \<noteq> []"
    by (simp add: demo_fields)
  have rt: "lbctlRTypeOf ''request'' ''backend'' = Inr ''tcpreqcont''"
    by (simp add: lbctlRTypeOf_def)
  note inst = get_engine_transaction [where K = demoCollab and c = "demoClient True"
      and parentType = "''backend''" and parentName = "''web''" and ruleType = "''request''"
      and transactionID = "''t1''" and frontend = "''web''" and id' = 1
      and lbctlRType = "''tcpreqcont''"]
  from inst [THEN conjunct2, THEN conjunct2, THEN conjunct2, THEN conjunct2, THEN conjunct1]
    miss(1,2) pt rt
  have tcp: "filter isEngineRun (newEvents (demoClient True)
        (snd (GetTCPContentRules demoCollab ''backend'' ''web'' ''request'' ''t1'' (demoClient True))))
       = [EngineRun (''l7-'' @ typeToLbctlType demoCollab ''backend'' @ ''-'' @ ''tcpreqcont'' @ ''-dump'')
            [] [''web'']]"
    by (elim impE) (intro conjI)
  from inst [THEN conjunct2, THEN conjunct2, THEN conjunct2, THEN conjunct2, THEN conjunct2,
      THEN conjunct2, THEN conjunct1] miss(3)
  have bsr: "filter isEngineRun (newEvents (demoClient True)
        (snd (GetBackendSwitchingRules demoCollab ''web'' ''t1'' (demoClient True))))
       = [EngineRun ''l7-service-usefarm-dump'' ''t1'' [''web'']]"
    by (elim impE)
  show ?thesis
    using miss pt rt tcp bsr by (simp add: demo_fields)
qed

text \<open>
  C10. The Edit operations name the entity to the engine's edit by \<open>data.ID\<close>, not by
  the \<open>id\<close> argument: every engine edit of a call is named \<open>FormatInt (ID data)\<close>,
  and it is the first event after the Get-one once that has succeeded and the token is in
  order; the pre-image is fetched with the \<open>id\<close> argument (the Edit's trace starts with
  the Get-one's for \<open>id\<close>, whose engine show on a cache miss carries
  \<open>FormatInt id\<close>); and the two identifiers differ whenever \<open>data.ID\<close> differs from
  \<open>id\<close>, since the decimal rendering is injective.
\<close>

theorem edit_identifies_by_payload_id:
  assumes val: "(if UseValidation c then Validate K data else None) = None"
    and pt: "typeToLbctlType K parentType \<noteq> []"
    and rt: "lbctlRTypeOf ruleType parentType = Inr lbctlRType"
  shows
    "list_all (editNamed (FormatInt (ID data)))
       (newEvents c (snd (EditTCPContentRule K id' parentType parentName ruleType data
          transactionID version c)))
     \<and> list_all (editNamed (FormatInt (ID data)))
       (newEvents c (snd (EditBackendSwitchingRule K id' frontend data transactionID version c)))
     \<and> (ID data \<noteq> id' \<longrightarrow> FormatInt (ID data) \<noteq> FormatInt id')
     \<and> Trace (snd (EditTCPContentRule K id' parentType parentName ruleType data transactionID
          version c))
       = Trace (snd (GetTCPContentRule K id' parentType parentName ruleType transactionID c))
         @ newEvents (snd (GetTCPContentRule K id' parentType parentName ruleType transactionID c))
             (snd (EditTCPContentRule K id' parentType parentName ruleType data transactionID
                     version c))
     \<and> Trace (snd (EditBackendSwitchingRule K id' frontend data transactionID version c))
       = Trace (snd (GetBackendSwitchingRule K id' frontend transactionID c))
         @ newEvents (snd (GetBackendSwitchingRule K id' frontend transactionID c))
             (snd (EditBackendSwitchingRule K id' frontend data transactionID version c))
     \<and> (rcGetOne (enabled (Cache c)) (TcpContentRequestRules (Cache c)) id'
           (parentName, parentType, transactionID) = None
         \<and> rcGetOne (enabled (Cache c)) (TcpContentResponseRules (Cache c)) id'
           (parentName, transactionID) = None
         \<longrightarrow> filter isEngineRun
               (newEvents c (snd (GetTCPContentRule K id' parentType parentName ruleType
                  transactionID c)))
             = [EngineRun (''l7-'' @ typeToLbctlType K parentType @ ''-'' @ lbctlRType @ ''-show'')
                  [] [parentName, FormatInt id']])
     \<and> (rcGetOne (enabled (Cache c)) (BackendSwitchingRules (Cache c)) id'
           (frontend, transactionID) = None
         \<longrightarrow> filter isEngineRun
               (newEvents c (snd (GetBackendSwitchingRule K id' frontend transactionID c)))
             = [EngineRun ''l7-service-usefarm-show'' transactionID [frontend, FormatInt id']])
     \<and> (\<forall>ondisk. fst (GetTCPContentRule K id' parentType parentName ruleType transactionID c)
                     = Inr ondisk
                   \<and> tokenError transactionID version = None
          \<longrightarrow> take 1 (newEvents
                  (snd (GetTCPContentRule K id' parentType parentName ruleType transactionID c))
                  (snd (EditTCPContentRule K id' parentType parentName ruleType data
                          transactionID version c)))
                = [EngineMutate (EngineEdit (FormatInt (ID data)) lbctlRType parentName
                     (typeToLbctlType K parentType) data ondisk transactionID version)])
     \<and> (\<forall>ondisk. fst (GetBackendSwitchingRule K id' frontend transactionID c) = Inr ondisk
                   \<and> tokenError transactionID version = None
          \<longrightarrow> take 1 (newEvents
                  (snd (GetBackendSwitchingRule K id' frontend transactionID c))
                  (snd (EditBackendSwitchingRule K id' frontend data transactionID version c)))
                = [EngineMutate (EngineEdit (FormatInt (ID data)) ''usefarm'' frontend
                     ''service'' data ondisk transactionID version)])"
proof -
  obtain r1 c1 where g: "GetTCPContentRule K id' parentType parentName ruleType transactionID c = (r1, c1)"
    by force
  obtain r c' where e: "EditTCPContentRule K id' parentType parentName ruleType data transactionID version c = (r, c')"
    by force
  obtain r1b c1b where gb: "GetBackendSwitchingRule K id' frontend transactionID c = (r1b, c1b)"
    by force
  obtain rb cb' where eb: "EditBackendSwitchingRule K id' frontend data transactionID version c = (rb, cb')"
    by force
  note tcp = edit_tcp_refetch [OF val pt rt g e]
  note bsr = edit_bsr_refetch [OF val gb eb]
  have inj: "ID data \<noteq> id' \<longrightarrow> FormatInt (ID data) \<noteq> FormatInt id'"
    using FormatInt_inj by blast
  have show_tcp: "filter isEngineRun (newEvents c c1)
             = [EngineRun (''l7-'' @ typeToLbctlType K parentType @ ''-'' @ lbctlRType @ ''-show'')
                  [] [parentName, FormatInt id']]"
    if "rcGetOne (enabled (Cache c)) (TcpContentRequestRules (Cache c)) id'
           (parentName, parentType, transactionID) = None"
      and "rcGetOne (enabled (Cache c)) (TcpContentResponseRules (Cache c)) id'
           (parentName, transactionID) = None"
    using get_tcp_one_miss [OF that pt rt g] .
  have show_bsr: "filter isEngineRun (newEvents c c1b)
             = [EngineRun ''l7-service-usefarm-show'' transactionID [frontend, FormatInt id']]"
    if "rcGetOne (enabled (Cache c)) (BackendSwitchingRules (Cache c)) id'
           (frontend, transactionID) = None"
    using get_bsr_one_miss [OF that gb] .
  show ?thesis
    using edit_tcp_names_payload_id [OF e] edit_bsr_names_payload_id [OF eb] inj
      tcp(1,3) bsr(1,3) show_tcp show_bsr
    by (simp add: g e gb eb)
qed

theorem edit_identifies_by_payload_id_witness:
  "(if UseValidation (demoClient True) then Validate demoCollab ruleB else None) = None
   \<and> typeToLbctlType demoCollab ''backend'' \<noteq> []
   \<and> lbctlRTypeOf ''request'' ''backend'' = Inr ''tcpreqcont''
   \<and> ID ruleB \<noteq> 1
   \<and> FormatInt (ID ruleB) \<noteq> FormatInt 1
   \<and> rcGetOne (enabled (Cache (demoClient True))) (BackendSwitchingRules (Cache (demoClient True)))
        1 (''web'', ''t1'') = None
   \<and> filter isEngineRun (newEvents (demoClient True)
        (snd (GetBackendSwitchingRule demoCollab 1 ''web'' ''t1'' (demoClient True))))
       = [EngineRun ''l7-service-usefarm-show'' ''t1'' [''web'', FormatInt 1]]
   \<and> fst (GetBackendSwitchingRule demoCollab 1 ''web'' ''t1'' (demoClient True))
       = Inr \<lparr>Version = 7, Data = ruleA\<rparr>
   \<and> tokenError ''t1'' 0 = None
   \<and> take 1 (newEvents (snd (GetBackendSwitchingRule demoCollab 1 ''web'' ''t1'' (demoClient True)))
        (snd (EditBackendSwitchingRule demoCollab 1 ''web'' ruleB ''t1'' 0 (demoClient True))))
       = [EngineMutate (EngineEdit (FormatInt (ID ruleB)) ''usefarm'' ''web'' ''service'' ruleB
            \<lparr>Version = 7, Data = ruleA\<rparr> ''t1'' 0)]"
proof -
  have val: "(if UseValidation (demoClient True) then Validate demoCollab ruleB else None) = None"
    by (simp add: demo_fields)
  have pt: "typeToLbctlType demoCollab ''backend'' \<noteq> []"
    by (simp add: demo_fields)
  have rt: "lbctlRTypeOf ''request'' ''backend'' = Inr ''tcpreqcont''"
    by (simp add: lbctlRTypeOf_def)
  have other: "ID ruleB \<noteq> 1"
    by (simp add: ruleB_def)
  have miss: "rcGetOne (enabled (Cache (demoClient True))) (BackendSwitchingRules (Cache (demoClient True)))
        1 (''web'', ''t1'') = None"
    by (simp add: rcGetOne_def demoClient_def emptyRuleCache_def)
  have got: "fst (GetBackendSwitchingRule demoCollab 1 ''web'' ''t1'' (demoClient True))
       = Inr \<lparr>Version = 7, Data = ruleA\<rparr>"
    by (simp add: demo_eval)
  have tok: "tokenError ''t1'' 0 = None"
    by (simp add: tokenError_def)
  note inst = edit_identifies_by_payload_id [OF val pt rt, where id' = 1 and frontend = "''web''"
      and transactionID = "''t1''" and version = 0 and parentName = "''web''"]
  from inst [THEN conjunct2, THEN conjunct2, THEN conjunct1] other
  have differ: "FormatInt (ID ruleB) \<noteq> FormatInt 1"
    by (elim impE)
  from inst [THEN conjunct2, THEN conjunct2, THEN conjunct2, THEN conjunct2, THEN conjunct2,
      THEN conjunct2, THEN conjunct1] miss
  have fetched: "filter isEngineRun (newEvents (demoClient True)
        (snd (GetBackendSwitchingRule demoCollab 1 ''web'' ''t1'' (demoClient True))))
       = [EngineRun ''l7-service-usefarm-show'' ''t1'' [''web'', FormatInt 1]]"
    by (elim impE)
  from inst [THEN conjunct2, THEN conjunct2, THEN conjunct2, THEN conjunct2, THEN conjunct2,
      THEN conjunct2, THEN conjunct2, THEN conjunct2] got tok
  have edited: "take 1 (newEvents (snd (GetBackendSwitchingRule demoCollab 1 ''web'' ''t1'' (demoClient True)))
        (snd (EditBackendSwitchingRule demoCollab 1 ''web'' ruleB ''t1'' 0 (demoClient True))))
       = [EngineMutate (EngineEdit (FormatInt (ID ruleB)) ''usefarm'' ''web'' ''service'' ruleB
            \<lparr>Version = 7, Data = ruleA\<rparr> ''t1'' 0)]"
    by blast
  show ?thesis
    using val pt rt other differ miss fetched got tok edited by simp
qed

end
